theory Spec2Isabelle
  imports Complex_Main
begin

section \<open>Errors and literals\<close>

text \<open>
  The embedding follows \<^verbatim>\<open>opensquirrel/ir.py\<close>,
  \<^verbatim>\<open>opensquirrel/decomposer/aba_decomposer.py\<close> and
  \<^verbatim>\<open>opensquirrel/default_measurements.py\<close>.
  Python floats are idealised as real numbers, except where the rounding of a
  double decides whether the program raises; Python integers are \<open>int\<close>.
  Every \<^verbatim>\<open>raise\<close> of the source is a value \<open>Inl e\<close>. The source raises
  \<^verbatim>\<open>ValueError\<close> with different messages; the constructors below keep these
  apart under the names of the specification, next to the exceptions that the
  Python runtime raises by itself.
\<close>

datatype error =
    InvalidAxis            \<comment> \<open>\<^verbatim>\<open>Axis._parse_and_validate_axislike\<close>: not 3 components\<close>
  | UnnormalizedAngle      \<comment> \<open>\<^verbatim>\<open>ValueError("Angle needs to be normalized")\<close>\<close>
  | InvalidOperandCount    \<comment> \<open>\<^verbatim>\<open>ValueError("for 1q gates, please use BlochSphereRotation")\<close>\<close>
  | DuplicateOperand       \<comment> \<open>\<^verbatim>\<open>ValueError("control and target qubit cannot be the same")\<close>\<close>
  | MatrixShapeMismatch    \<comment> \<open>\<^verbatim>\<open>ValueError("incorrect matrix shape. ...")\<close>\<close>
  | MathDomainError        \<comment> \<open>\<^verbatim>\<open>math.acos\<close>, \<^verbatim>\<open>math.sqrt\<close> outside their domain\<close>
  | PyZeroDivisionError    \<comment> \<open>float division by zero\<close>
  | PyTypeError            \<comment> \<open>a call whose arguments do not fit the signature\<close>
  | PyIndexError           \<comment> \<open>\<^verbatim>\<open>args[arg_index]\<close> out of range\<close>

datatype Qubit = Qubit (q_index: int)

datatype Bit = Bit (b_index: int)

datatype Expression =
    Float real
  | Int int
  | BitE Bit
  | QubitE Qubit

section \<open>Axis\<close>

text \<open>
  \<^verbatim>\<open>Axis\<close> stores \<^verbatim>\<open>_value\<close>, a 1D array. An \<^verbatim>\<open>AxisLike\<close> is either an
  array-like, taken here after \<^verbatim>\<open>np.asarray(axis, dtype=float).flatten()\<close> as
  the list of its numbers, or an \<^verbatim>\<open>Axis\<close>.
\<close>

record Axis =
  axis_value :: "real list"

datatype AxisLike = ArrayLike "real list" | AxisObj Axis

text \<open>\<^verbatim>\<open>np.linalg.norm\<close> of a 1D array.\<close>

definition linalg_norm :: "real list \<Rightarrow> real" where
  "linalg_norm xs = sqrt (sum_list (map (\<lambda>x. x\<^sup>2) xs))"

text \<open>
  \<^verbatim>\<open>Axis._normalize_axis\<close>: \<^verbatim>\<open>axis / np.linalg.norm(axis)\<close>. On the zero
  vector numpy yields NaN components; the reals have no NaN, so every statement
  below about a normalized axis is made for a vector of non-zero norm.
\<close>

definition normalize_axis :: "real list \<Rightarrow> real list" where
  "normalize_axis xs = map (\<lambda>x. x / linalg_norm xs) xs"

text \<open>\<^verbatim>\<open>Axis._parse_and_validate_axislike\<close>.\<close>

fun parse_and_validate_axislike :: "AxisLike \<Rightarrow> error + real list" where
  "parse_and_validate_axislike (AxisObj a) = Inr (axis_value a)"
| "parse_and_validate_axislike (ArrayLike xs) =
     (if length xs \<noteq> 3 then Inl InvalidAxis else Inr (normalize_axis xs))"

text \<open>\<^verbatim>\<open>Axis.__init__\<close> called with one argument.\<close>

definition Axis_init :: "AxisLike \<Rightarrow> error + Axis" where
  "Axis_init a =
     (case parse_and_validate_axislike a of
        Inl e \<Rightarrow> Inl e
      | Inr v \<Rightarrow> Inr \<lparr>axis_value = v\<rparr>)"

text \<open>\<^verbatim>\<open>np.array_equal\<close>: same shape and all entries equal.\<close>

definition array_equal :: "real list \<Rightarrow> real list \<Rightarrow> bool" where
  "array_equal xs ys \<longleftrightarrow> length xs = length ys \<and> (\<forall>(x, y) \<in> set (zip xs ys). x = y)"

text \<open>\<^verbatim>\<open>Axis.__eq__\<close> on two \<^verbatim>\<open>Axis\<close> values.\<close>

definition Axis_eq :: "Axis \<Rightarrow> Axis \<Rightarrow> bool" where
  "Axis_eq self other \<longleftrightarrow> array_equal (axis_value self) (axis_value other)"

text \<open>
  \<^verbatim>\<open>np.allclose(a, b, rtol, atol)\<close> on two 1D arrays of the same length
  (every axis has length 3): every entry satisfies
  \<^verbatim>\<open>|a - b| <= atol + rtol * |b|\<close>; numpy's defaults are
  \<^verbatim>\<open>rtol=1e-05\<close> and \<^verbatim>\<open>atol=1e-08\<close>.
\<close>

definition allclose :: "real list \<Rightarrow> real list \<Rightarrow> real \<Rightarrow> real \<Rightarrow> bool" where
  "allclose a b rtol atol \<longleftrightarrow> list_all2 (\<lambda>x y. \<bar>x - y\<bar> \<le> atol + rtol * \<bar>y\<bar>) a b"

definition default_rtol :: real where
  "default_rtol = 1 / 10 ^ 5"

definition default_atol :: real where
  "default_atol = 1 / 10 ^ 8"

text \<open>
  The tolerance \<^verbatim>\<open>ATOL\<close> is imported from \<^verbatim>\<open>opensquirrel.common\<close>; it is a
  parameter \<open>ATOL\<close> of every function that reads it.
\<close>

section \<open>Measure\<close>

record Measure =
  m_generator :: "string option"
  m_arguments :: "Expression list option"
  m_qubit :: Qubit
  m_bit :: Bit
  m_axis :: Axis

text \<open>\<^verbatim>\<open>Measure.__init__\<close>.\<close>

definition Measure_init ::
  "Qubit \<Rightarrow> Bit \<Rightarrow> AxisLike \<Rightarrow> string option \<Rightarrow> Expression list option \<Rightarrow> error + Measure" where
  "Measure_init q b ax gen args =
     (case Axis_init ax of
        Inl e \<Rightarrow> Inl e
      | Inr a \<Rightarrow> Inr \<lparr>m_generator = gen, m_arguments = args, m_qubit = q, m_bit = b, m_axis = a\<rparr>)"

text \<open>\<^verbatim>\<open>Measure.__eq__\<close> on two \<^verbatim>\<open>Measure\<close> values.\<close>

definition Measure_eq :: "real \<Rightarrow> Measure \<Rightarrow> Measure \<Rightarrow> bool" where
  "Measure_eq ATOL self other \<longleftrightarrow>
     m_qubit self = m_qubit other \<and>
     allclose (axis_value (m_axis self)) (axis_value (m_axis other)) default_rtol ATOL"

section \<open>Gates\<close>

text \<open>A numpy array: its \<^verbatim>\<open>shape\<close> tuple and its entries in row-major order.\<close>

record ndarray =
  shape :: "nat list"
  entries :: "complex list"

text \<open>
  \<^verbatim>\<open>Gate.__init__\<close> stores \<^verbatim>\<open>generator\<close> and \<^verbatim>\<open>arguments\<close>.
  A generator is a named function; the node remembers it by its name.
\<close>

record Gate_base =
  generator :: "string option"
  arguments :: "Expression list option"

text \<open>\<^verbatim>\<open>Gate._check_repeated_qubit_operands\<close>: \<^verbatim>\<open>len(qubits) != len(set(qubits))\<close>.\<close>

definition check_repeated_qubit_operands :: "Qubit list \<Rightarrow> bool" where
  "check_repeated_qubit_operands qubits \<longleftrightarrow> length qubits \<noteq> card (set qubits)"

record MatrixGate = Gate_base +
  matrix :: ndarray
  operands :: "Qubit list"

text \<open>\<^verbatim>\<open>MatrixGate.__init__\<close>, the three checks in the order of the source.\<close>

definition MatrixGate_init ::
  "ndarray \<Rightarrow> Qubit list \<Rightarrow> string option \<Rightarrow> Expression list option \<Rightarrow> error + MatrixGate" where
  "MatrixGate_init m ops gen args =
     (if length ops < 2 then Inl InvalidOperandCount
      else if check_repeated_qubit_operands ops then Inl DuplicateOperand
      else if shape m \<noteq> [2 ^ length ops, 2 ^ length ops] then Inl MatrixShapeMismatch
      else Inr \<lparr>generator = gen, arguments = args, matrix = m, operands = ops\<rparr>)"

record BlochSphereRotation = Gate_base +
  qubit :: Qubit
  axis :: Axis
  angle :: real
  phase :: real

text \<open>\<^verbatim>\<open>BlochSphereRotation.__eq__\<close> on two rotations.\<close>

definition BlochSphereRotation_eq ::
  "real \<Rightarrow> BlochSphereRotation \<Rightarrow> BlochSphereRotation \<Rightarrow> bool" where
  "BlochSphereRotation_eq ATOL self other =
     (if qubit self \<noteq> qubit other then False
      else if \<bar>phase self - phase other\<bar> > ATOL then False
      else if allclose (axis_value (axis self)) (axis_value (axis other)) default_rtol default_atol
        then \<bar>angle self - angle other\<bar> < ATOL
      else if allclose (axis_value (axis self)) (map uminus (axis_value (axis other)))
                default_rtol default_atol
        then \<bar>angle self + angle other\<bar> < ATOL
      else False)"

text \<open>\<^verbatim>\<open>BlochSphereRotation.is_identity\<close>.\<close>

definition is_identity :: "real \<Rightarrow> BlochSphereRotation \<Rightarrow> bool" where
  "is_identity ATOL self \<longleftrightarrow> \<bar>angle self\<bar> < ATOL \<and> \<bar>phase self\<bar> < ATOL"

text \<open>
  The equality of two rotations as the specification words it: every comparison,
  the one of the axes too, within \<open>ATOL\<close>.
\<close>

definition within_ATOL :: "real \<Rightarrow> real list \<Rightarrow> real list \<Rightarrow> bool" where
  "within_ATOL ATOL a b \<longleftrightarrow> list_all2 (\<lambda>x y. \<bar>x - y\<bar> \<le> ATOL) a b"

definition spec_rotation_eq ::
  "real \<Rightarrow> BlochSphereRotation \<Rightarrow> BlochSphereRotation \<Rightarrow> bool" where
  "spec_rotation_eq ATOL r r' \<longleftrightarrow>
     qubit r = qubit r' \<and> \<bar>phase r - phase r'\<bar> \<le> ATOL \<and>
     (within_ATOL ATOL (axis_value (axis r)) (axis_value (axis r')) \<and>
        \<bar>angle r - angle r'\<bar> \<le> ATOL \<or>
      within_ATOL ATOL (axis_value (axis r)) (map uminus (axis_value (axis r'))) \<and>
        \<bar>angle r + angle r'\<bar> \<le> ATOL)"

text \<open>
  \<^verbatim>\<open>ControlledGate\<close> holds a gate, so the gates form a recursive type; the
  single-qubit and the matrix gates are the records above.
\<close>

datatype Gate =
    BlochSphereRotationG BlochSphereRotation
  | MatrixGateG MatrixGate
  | ControlledGate (control_qubit: Qubit) (target_gate: Gate)
      (cg_generator: "string option") (cg_arguments: "Expression list option")

section \<open>Functions of the \<^verbatim>\<open>math\<close> module\<close>

text \<open>
  \<^verbatim>\<open>math.acos\<close> and \<^verbatim>\<open>math.sqrt\<close> raise \<^verbatim>\<open>ValueError\<close> outside their
  domain, and a float division raises on a zero divisor.
\<close>

definition math_acos :: "real \<Rightarrow> error + real" where
  "math_acos x = (if - 1 \<le> x \<and> x \<le> 1 then Inr (arccos x) else Inl MathDomainError)"

definition math_sqrt :: "real \<Rightarrow> error + real" where
  "math_sqrt x = (if 0 \<le> x then Inr (sqrt x) else Inl MathDomainError)"

definition float_div :: "real \<Rightarrow> real \<Rightarrow> error + real" where
  "float_div x y = (if y = 0 then Inl PyZeroDivisionError else Inr (x / y))"

text \<open>\<^verbatim>\<open>math.atan2(y, x)\<close>, the angle of the point \<open>(x, y)\<close> in \<open>(-\<pi>, \<pi>]\<close>.\<close>

definition math_atan2 :: "real \<Rightarrow> real \<Rightarrow> real" where
  "math_atan2 y x =
     (if 0 < x then arctan (y / x)
      else if x < 0 then (if 0 \<le> y then arctan (y / x) + pi else arctan (y / x) - pi)
      else if 0 < y then pi / 2
      else if y < 0 then - pi / 2
      else 0)"

text \<open>\<^verbatim>\<open>math.copysign(x, y)\<close>; the reals have no negative zero.\<close>

definition math_copysign :: "real \<Rightarrow> real \<Rightarrow> real" where
  "math_copysign x y = (if 0 \<le> y then \<bar>x\<bar> else - \<bar>x\<bar>)"

text \<open>
  The rounding of a real number to the nearest double: 53 significant bits,
  ties to the even significand. The exponent range is taken as unbounded, so
  overflow, underflow and subnormal numbers are not represented; the values
  that the evaluation below rounds lie between \<open>2\<^sup>-\<^sup>7\<close> and \<open>16\<close>.
\<close>

definition round_half_even :: "real \<Rightarrow> int" where
  "round_half_even y =
     (let n = \<lfloor>y\<rfloor> in
      if y - of_int n < 1 / 2 then n
      else if 1 / 2 < y - of_int n then n + 1
      else if even n then n else n + 1)"

definition float64_round :: "real \<Rightarrow> real" where
  "float64_round x =
     (if x = 0 then 0
      else
        let e = \<lfloor>log 2 \<bar>x\<bar>\<rfloor>;
            ulp = 2 powr (of_int e - 52)
        in of_int (round_half_even (x / ulp)) * ulp)"

section \<open>The A-B-A decomposer\<close>

text \<open>
  The six subclasses of \<^verbatim>\<open>ABADecomposer\<close> fix the properties \<^verbatim>\<open>ra\<close> and
  \<^verbatim>\<open>rb\<close>; \<^verbatim>\<open>__init__\<close> looks both up in \<^verbatim>\<open>_gate_list = [Rx, Ry, Rz]\<close>.
\<close>

datatype rotation_generator = Rx | Ry | Rz

datatype ABADecomposer =
  XYXDecomposer | XZXDecomposer | YXYDecomposer | YZYDecomposer | ZXZDecomposer | ZYZDecomposer

fun ra :: "ABADecomposer \<Rightarrow> rotation_generator" where
  "ra XYXDecomposer = Rx"
| "ra XZXDecomposer = Rx"
| "ra YXYDecomposer = Ry"
| "ra YZYDecomposer = Ry"
| "ra ZXZDecomposer = Rz"
| "ra ZYZDecomposer = Rz"

fun rb :: "ABADecomposer \<Rightarrow> rotation_generator" where
  "rb XYXDecomposer = Ry"
| "rb XZXDecomposer = Rz"
| "rb YXYDecomposer = Rx"
| "rb YZYDecomposer = Rz"
| "rb ZXZDecomposer = Rx"
| "rb ZYZDecomposer = Ry"

text \<open>\<^verbatim>\<open>_gate_list.index(g)\<close> for \<^verbatim>\<open>_gate_list = [Rx, Ry, Rz]\<close>.\<close>

fun gate_list_index :: "rotation_generator \<Rightarrow> nat" where
  "gate_list_index Rx = 0"
| "gate_list_index Ry = 1"
| "gate_list_index Rz = 2"

definition index_a :: "ABADecomposer \<Rightarrow> nat" where
  "index_a d = gate_list_index (ra d)"

definition index_b :: "ABADecomposer \<Rightarrow> nat" where
  "index_b d = gate_list_index (rb d)"

text \<open>
  \<^verbatim>\<open>get_decomposition_angles\<close>, the branch \<^verbatim>\<open>abs(alpha - math.pi) < ATOL\<close>:
  from \<open>a = axis[index_a]\<close> and \<open>b = axis[index_b]\<close> it computes \<open>(p, theta2, m)\<close>.
  The quotient \<^verbatim>\<open>axis[index_b] / math.sqrt(1 - axis[index_a] ** 2)\<close> goes to
  \<^verbatim>\<open>math.acos\<close> as it is computed, with no clamp to \<open>[-1, 1]\<close>, so that its
  rounding decides whether \<^verbatim>\<open>math.acos\<close> raises: each of its four operations
  (the square, the difference, the square root, the division) is rounded to a
  double. Its division is a numpy division; the divisor is not zero here, since
  \<open>a\<close> is not within \<open>ATOL\<close> of \<open>1\<close> or \<open>-1\<close>.
\<close>

definition degenerate_branch :: "real \<Rightarrow> real \<Rightarrow> real \<Rightarrow> error + real \<times> real \<times> real" where
  "degenerate_branch ATOL a b =
     (if \<bar>a\<bar> < ATOL then
        (case math_acos b of
           Inl e \<Rightarrow> Inl e
         | Inr acos_b \<Rightarrow> Inr (0, pi, 2 * acos_b))
      else
        (case math_acos a of
           Inl e \<Rightarrow> Inl e
         | Inr acos_a \<Rightarrow>
             if \<bar>a - 1\<bar> < ATOL \<or> \<bar>a + 1\<bar> < ATOL then Inr (pi, 2 * acos_a, pi)
             else
               (case math_sqrt (float64_round (1 - float64_round (a\<^sup>2))) of
                  Inl e \<Rightarrow> Inl e
                | Inr s \<Rightarrow>
                    (case math_acos (float64_round (b / float64_round s)) of
                       Inl e \<Rightarrow> Inl e
                     | Inr q \<Rightarrow> Inr (pi, 2 * acos_a, 2 * q)))))"

text \<open>
  The other branch. Both arguments of \<^verbatim>\<open>math.acos\<close> are clamped to \<open>[-1, 1]\<close>
  here, so no rounding can take them out of its domain, and the branch is
  computed over the reals. \<^verbatim>\<open>math.tan(alpha / 2)\<close> is \<open>tan\<close>: the branch is
  entered with \<open>cos (alpha / 2) \<noteq> 0\<close> only, since \<open>alpha\<close> has passed the range
  check and is not within \<open>ATOL\<close> of \<open>\<pi>\<close>.
\<close>

definition general_branch :: "real \<Rightarrow> real \<Rightarrow> real \<Rightarrow> real \<Rightarrow> error + real \<times> real \<times> real" where
  "general_branch ATOL alpha a b =
     (let p = 2 * math_atan2 (a * sin (alpha / 2)) (cos (alpha / 2)) in
      case math_sqrt (1 + (a * tan (alpha / 2))\<^sup>2) of
        Inl e \<Rightarrow> Inl e
      | Inr s \<Rightarrow>
          (case math_acos (max (min (cos (alpha / 2) * s) 1) (- 1)) of
             Inl e \<Rightarrow> Inl e
           | Inr t \<Rightarrow>
               let theta2 = math_copysign (2 * t) alpha in
               if \<bar>sin (theta2 / 2)\<bar> < ATOL then Inr (p, theta2, p)
               else
                 (case float_div (b * sin (alpha / 2)) (sin (theta2 / 2)) of
                    Inl e \<Rightarrow> Inl e
                  | Inr q \<Rightarrow>
                      (case math_acos (max (min q 1) (- 1)) of
                         Inl e \<Rightarrow> Inl e
                       | Inr t' \<Rightarrow> Inr (p, theta2, 2 * t')))))"

text \<open>
  \<^verbatim>\<open>ABADecomposer.get_decomposition_angles\<close>. The axis is parsed first, then
  the range of \<open>alpha\<close> is checked. The components are read at \<open>index_a\<close> and
  \<open>index_b\<close>, both below 3, the length of every stored axis.
\<close>

definition get_decomposition_angles ::
  "real \<Rightarrow> ABADecomposer \<Rightarrow> real \<Rightarrow> AxisLike \<Rightarrow> error + real \<times> real \<times> real" where
  "get_decomposition_angles ATOL d alpha axis_like =
     (case Axis_init axis_like of
        Inl e \<Rightarrow> Inl e
      | Inr ax \<Rightarrow>
          if \<not> (- pi + ATOL < alpha \<and> alpha \<le> pi + ATOL) then Inl UnnormalizedAngle
          else
            (case (if \<bar>alpha - pi\<bar> < ATOL
                   then degenerate_branch ATOL (axis_value ax ! index_a d) (axis_value ax ! index_b d)
                   else general_branch ATOL alpha (axis_value ax ! index_a d) (axis_value ax ! index_b d)) of
               Inl e \<Rightarrow> Inl e
             | Inr (p, theta2, m) \<Rightarrow>
                 let theta1 = (p + m) / 2;
                     theta3 = p - theta1
                 in Inr (theta1, theta2, theta3)))"

text \<open>
  Modelled from the spec: \<^verbatim>\<open>normalize_angle\<close> of \<^verbatim>\<open>opensquirrel.common\<close>,
  which is not among the sources. "Angle normalization maps any real angle into
  \<open>(-\<pi>, \<pi>]\<close> by modular reduction."
\<close>

definition normalize_angle :: "real \<Rightarrow> real" where
  "normalize_angle x = x - 2 * pi * of_int \<lceil>(x - pi) / (2 * pi)\<rceil>"

text \<open>
  Modelled from the spec: the generators \<^verbatim>\<open>Rx\<close>, \<^verbatim>\<open>Ry\<close>, \<^verbatim>\<open>Rz\<close> of
  \<^verbatim>\<open>opensquirrel.default_gates\<close>, which is not among the sources. "Each is a
  named generator function \<open>(qubit, angle) -> BlochSphereRotation\<close> registered via
  the named-callable protocol": a rotation about the canonical axis, of phase 0,
  whose constructor normalizes the angle.
\<close>

fun canonical_axis :: "rotation_generator \<Rightarrow> real list" where
  "canonical_axis Rx = [1, 0, 0]"
| "canonical_axis Ry = [0, 1, 0]"
| "canonical_axis Rz = [0, 0, 1]"

fun generator_name :: "rotation_generator \<Rightarrow> string" where
  "generator_name Rx = ''Rx''"
| "generator_name Ry = ''Ry''"
| "generator_name Rz = ''Rz''"

definition rotation :: "rotation_generator \<Rightarrow> Qubit \<Rightarrow> real \<Rightarrow> BlochSphereRotation" where
  "rotation g q theta =
     \<lparr>generator = Some (generator_name g), arguments = Some [QubitE q, Float theta],
      qubit = q, axis = \<lparr>axis_value = canonical_axis g\<rparr>,
      angle = normalize_angle theta, phase = normalize_angle 0\<rparr>"

text \<open>
  Modelled from the spec: \<^verbatim>\<open>filter_out_identities\<close> of
  \<^verbatim>\<open>opensquirrel.utils.identity_filter\<close>, which is not among the sources. "Drop
  any of the three that is an identity rotation (angle \<open>\<approx>\<close> 0 and phase \<open>\<approx>\<close> 0),
  output order preserved."
\<close>

definition filter_out_identities :: "real \<Rightarrow> BlochSphereRotation list \<Rightarrow> BlochSphereRotation list" where
  "filter_out_identities ATOL gs = filter (\<lambda>g. \<not> is_identity ATOL g) gs"

text \<open>\<^verbatim>\<open>ABADecomposer.decompose\<close>.\<close>

fun decompose :: "real \<Rightarrow> ABADecomposer \<Rightarrow> Gate \<Rightarrow> error + Gate list" where
  "decompose ATOL d (BlochSphereRotationG g) =
     (case get_decomposition_angles ATOL d (angle g) (AxisObj (axis g)) of
        Inl e \<Rightarrow> Inl e
      | Inr (theta1, theta2, theta3) \<Rightarrow>
          let a1 = rotation (ra d) (qubit g) theta1;
              b = rotation (rb d) (qubit g) theta2;
              a2 = rotation (ra d) (qubit g) theta3
          in Inr (map BlochSphereRotationG (filter_out_identities ATOL [a1, b, a2])))"
| "decompose ATOL d g = Inr [g]"

section \<open>The unitary of a rotation\<close>

text \<open>
  Modelled from the spec: the matrix that the circuit-matrix compiler, which is
  not among the sources, gives a rotation. "BlochSphereRotation (as a single-qubit
  unitary from axis+angle+phase via the standard exponential-of-Pauli-dot-axis
  formula)": \<open>exp(i phase) (cos (angle/2) I - i sin (angle/2) (n\<^sub>x X + n\<^sub>y Y + n\<^sub>z Z))\<close>.
  A 2 by 2 matrix is the tuple of its entries, row by row.
\<close>

type_synonym matrix2 = "complex \<times> complex \<times> complex \<times> complex"

definition rotation_matrix :: "real list \<Rightarrow> real \<Rightarrow> real \<Rightarrow> matrix2" where
  "rotation_matrix n theta phi =
     (let c = cos (theta / 2); s = sin (theta / 2); e = cis phi in
      (e * Complex c (- (n ! 2) * s), e * Complex (- (n ! 1) * s) (- (n ! 0) * s),
       e * Complex ((n ! 1) * s) (- (n ! 0) * s), e * Complex c ((n ! 2) * s)))"

fun matrix2_mult :: "matrix2 \<Rightarrow> matrix2 \<Rightarrow> matrix2" where
  "matrix2_mult (a, b, c, d) (a', b', c', d') =
     (a * a' + b * c', a * b' + b * d', c * a' + d * c', c * b' + d * d')"

fun matrix2_scale :: "complex \<Rightarrow> matrix2 \<Rightarrow> matrix2" where
  "matrix2_scale k (a, b, c, d) = (k * a, k * b, k * c, k * d)"

text \<open>
  Modelled from the spec: "equivalence up to a scalar global phase:
  \<open>\<exists>\<theta>. M1 = e\<^sup>i\<^sup>\<theta> M2\<close>", here without rounding.
\<close>

definition equivalent_up_to_global_phase :: "matrix2 \<Rightarrow> matrix2 \<Rightarrow> bool" where
  "equivalent_up_to_global_phase M1 M2 \<longleftrightarrow> (\<exists>theta. M1 = matrix2_scale (cis theta) M2)"

section \<open>Named generators\<close>

text \<open>\<^verbatim>\<open>Reset\<close>, the third kind of node that a generator builds.\<close>

record Reset =
  r_generator :: "string option"
  r_arguments :: "Expression list option"
  r_qubit :: Qubit

text \<open>
  A Python function is called as \<^verbatim>\<open>f(*args, **kwargs)\<close>: \<open>args\<close> is the list of
  the positional arguments and \<open>kwargs\<close> the dictionary of the keyword arguments,
  an association list read with \<open>map_of\<close>. The signature of a function lists its
  parameters in declared order, each with its default if it has one; all
  parameters here are ordinary ones, which accept a positional or a keyword
  argument, as the parameters of every constructor and generator of the sources
  are.
\<close>

type_synonym 'v signature = "(string \<times> 'v option) list"

text \<open>
  The parameters that no positional argument fills: each takes its keyword
  argument, or else its default, or else the call is a \<^verbatim>\<open>TypeError\<close> (a
  missing argument).
\<close>

fun bind_keywords :: "'v signature \<Rightarrow> (string \<times> 'v) list \<Rightarrow> error + 'v list" where
  "bind_keywords [] kwargs = Inr []"
| "bind_keywords ((name, default_value) # params) kwargs =
     (case (case map_of kwargs name of Some v \<Rightarrow> Some v | None \<Rightarrow> default_value) of
        None \<Rightarrow> Inl PyTypeError
      | Some v \<Rightarrow>
          (case bind_keywords params kwargs of
             Inl e \<Rightarrow> Inl e
           | Inr vs \<Rightarrow> Inr (v # vs)))"

text \<open>
  The binding of the arguments of a call, in declared order. Python raises
  \<^verbatim>\<open>TypeError\<close> for too many positional arguments, for a keyword that names no
  parameter ("unexpected keyword argument") and for a keyword that names a
  parameter already filled by position ("multiple values").
\<close>

definition bind_arguments ::
  "'v signature \<Rightarrow> 'v list \<Rightarrow> (string \<times> 'v) list \<Rightarrow> error + 'v list" where
  "bind_arguments params args kwargs =
     (if length params < length args then Inl PyTypeError
      else if \<exists>k \<in> set (map fst kwargs). k \<notin> set (map fst (drop (length args) params))
        then Inl PyTypeError
      else
        (case bind_keywords (drop (length args) params) kwargs of
           Inl e \<Rightarrow> Inl e
         | Inr vs \<Rightarrow> Inr (args @ vs)))"

text \<open>
  A generator function: its name, its signature
  (\<^verbatim>\<open>inspect.signature(gate_generator).parameters\<close>) and its body, a function of
  the values bound to the parameters.
\<close>

record ('v, 'n) generator_function =
  gen_name :: string
  gen_params :: "'v signature"
  gen_body :: "'v list \<Rightarrow> error + 'n"

definition call_generator ::
  "('v, 'n) generator_function \<Rightarrow> 'v list \<Rightarrow> (string \<times> 'v) list \<Rightarrow> error + 'n" where
  "call_generator f args kwargs =
     (case bind_arguments (gen_params f) args kwargs of
        Inl e \<Rightarrow> Inl e
      | Inr vs \<Rightarrow> gen_body f vs)"

text \<open>
  The loop of the three wrappers over the parameter names, with its two
  variables \<^verbatim>\<open>all_args\<close> and \<^verbatim>\<open>arg_index\<close>; \<^verbatim>\<open>args[arg_index]\<close> raises
  \<^verbatim>\<open>IndexError\<close> out of range.
\<close>

fun collect_all_args ::
  "string list \<Rightarrow> 'v list \<Rightarrow> (string \<times> 'v) list \<Rightarrow> 'v list \<Rightarrow> nat \<Rightarrow> error + 'v list" where
  "collect_all_args [] args kwargs all_args arg_index = Inr all_args"
| "collect_all_args (par_name # pars) args kwargs all_args arg_index =
     (case map_of kwargs par_name of
        Some v \<Rightarrow> collect_all_args pars args kwargs (all_args @ [v]) arg_index
      | None \<Rightarrow>
          if arg_index < length args
          then collect_all_args pars args kwargs (all_args @ [args ! arg_index]) (arg_index + 1)
          else Inl PyIndexError)"

text \<open>The assignments \<^verbatim>\<open>result.generator = wrapper\<close> and
  \<^verbatim>\<open>result.arguments = tuple(all_args)\<close> on a gate.\<close>

fun Gate_set_metadata :: "Gate \<Rightarrow> string option \<Rightarrow> Expression list option \<Rightarrow> Gate" where
  "Gate_set_metadata (BlochSphereRotationG g) gen args =
     BlochSphereRotationG (g\<lparr>generator := gen, arguments := args\<rparr>)"
| "Gate_set_metadata (MatrixGateG g) gen args =
     MatrixGateG (g\<lparr>generator := gen, arguments := args\<rparr>)"
| "Gate_set_metadata (ControlledGate c t _ _) gen args = ControlledGate c t gen args"

fun Gate_arguments :: "Gate \<Rightarrow> Expression list option" where
  "Gate_arguments (BlochSphereRotationG g) = arguments g"
| "Gate_arguments (MatrixGateG g) = arguments g"
| "Gate_arguments (ControlledGate _ _ _ args) = args"

fun Gate_generator :: "Gate \<Rightarrow> string option" where
  "Gate_generator (BlochSphereRotationG g) = generator g"
| "Gate_generator (MatrixGateG g) = generator g"
| "Gate_generator (ControlledGate _ _ gen _) = gen"

text \<open>\<^verbatim>\<open>named_gate(gate_generator)(*args, **kwargs)\<close>.\<close>

definition named_gate ::
  "(Expression, Gate) generator_function \<Rightarrow> Expression list \<Rightarrow> (string \<times> Expression) list
     \<Rightarrow> error + Gate" where
  "named_gate gate_generator args kwargs =
     (case call_generator gate_generator args kwargs of
        Inl e \<Rightarrow> Inl e
      | Inr result \<Rightarrow>
          (case collect_all_args (map fst (gen_params gate_generator)) args kwargs [] 0 of
             Inl e \<Rightarrow> Inl e
           | Inr all_args \<Rightarrow>
               Inr (Gate_set_metadata result (Some (gen_name gate_generator)) (Some all_args))))"

text \<open>\<^verbatim>\<open>named_measurement(measurement_generator)(*args, **kwargs)\<close>.\<close>

definition named_measurement ::
  "(Expression, Measure) generator_function \<Rightarrow> Expression list \<Rightarrow> (string \<times> Expression) list
     \<Rightarrow> error + Measure" where
  "named_measurement measurement_generator args kwargs =
     (case call_generator measurement_generator args kwargs of
        Inl e \<Rightarrow> Inl e
      | Inr result \<Rightarrow>
          (case collect_all_args (map fst (gen_params measurement_generator)) args kwargs [] 0 of
             Inl e \<Rightarrow> Inl e
           | Inr all_args \<Rightarrow>
               Inr (result\<lparr>m_generator := Some (gen_name measurement_generator),
                            m_arguments := Some all_args\<rparr>)))"

text \<open>\<^verbatim>\<open>named_reset(reset_generator)(*args, **kwargs)\<close>.\<close>

definition named_reset ::
  "(Expression, Reset) generator_function \<Rightarrow> Expression list \<Rightarrow> (string \<times> Expression) list
     \<Rightarrow> error + Reset" where
  "named_reset reset_generator args kwargs =
     (case call_generator reset_generator args kwargs of
        Inl e \<Rightarrow> Inl e
      | Inr result \<Rightarrow>
          (case collect_all_args (map fst (gen_params reset_generator)) args kwargs [] 0 of
             Inl e \<Rightarrow> Inl e
           | Inr all_args \<Rightarrow>
               Inr (result\<lparr>r_generator := Some (gen_name reset_generator),
                            r_arguments := Some all_args\<rparr>)))"

section \<open>The default measurements\<close>

text \<open>
  The values that \<^verbatim>\<open>measure\<close> and \<^verbatim>\<open>measure_z\<close> pass to the constructor of
  \<^verbatim>\<open>Measure\<close>: expressions, plain integers, lists, tuples and \<^verbatim>\<open>None\<close>.
\<close>

datatype pyval =
    PyNone
  | PyInt int
  | PyFloat real
  | PyExpr Expression
  | PyList "pyval list"
  | PyTuple "pyval list"
  | PyFunction string

text \<open>The signature of \<^verbatim>\<open>Measure.__init__\<close>, without \<^verbatim>\<open>self\<close>.\<close>

definition Measure_params :: "pyval signature" where
  "Measure_params =
     [(''qubit'', None), (''bit'', None),
      (''axis'', Some (PyTuple [PyInt 0, PyInt 0, PyInt 1])),
      (''generator'', Some PyNone), (''arguments'', Some PyNone)]"

text \<open>
  The body of \<^verbatim>\<open>Measure.__init__\<close> on the bound values. The fields of the
  record are typed as the parameters are annotated; values of other types
  (which Python would store unchecked) are outside the model and are refused.
\<close>

fun number_of :: "pyval \<Rightarrow> real option" where
  "number_of (PyInt i) = Some (of_int i)"
| "number_of (PyFloat x) = Some x"
| "number_of _ = None"

fun axislike_of :: "pyval \<Rightarrow> error + AxisLike" where
  "axislike_of (PyTuple vs) =
     (if list_all (\<lambda>v. number_of v \<noteq> None) vs
      then Inr (ArrayLike (map (\<lambda>v. the (number_of v)) vs)) else Inl PyTypeError)"
| "axislike_of (PyList vs) =
     (if list_all (\<lambda>v. number_of v \<noteq> None) vs
      then Inr (ArrayLike (map (\<lambda>v. the (number_of v)) vs)) else Inl PyTypeError)"
| "axislike_of _ = Inl PyTypeError"

fun generator_of :: "pyval \<Rightarrow> error + string option" where
  "generator_of PyNone = Inr None"
| "generator_of (PyFunction name) = Inr (Some name)"
| "generator_of _ = Inl PyTypeError"

fun expression_of :: "pyval \<Rightarrow> Expression option" where
  "expression_of (PyExpr e) = Some e"
| "expression_of _ = None"

fun arguments_of :: "pyval \<Rightarrow> error + Expression list option" where
  "arguments_of PyNone = Inr None"
| "arguments_of (PyTuple vs) =
     (if list_all (\<lambda>v. expression_of v \<noteq> None) vs
      then Inr (Some (map (\<lambda>v. the (expression_of v)) vs)) else Inl PyTypeError)"
| "arguments_of _ = Inl PyTypeError"

fun Measure_init_bound :: "pyval list \<Rightarrow> error + Measure" where
  "Measure_init_bound [PyExpr (QubitE q), PyExpr (BitE b), ax, gen, args] =
     (case axislike_of ax of
        Inl e \<Rightarrow> Inl e
      | Inr a \<Rightarrow>
          (case generator_of gen of
             Inl e \<Rightarrow> Inl e
           | Inr g \<Rightarrow>
               (case arguments_of args of
                  Inl e \<Rightarrow> Inl e
                | Inr xs \<Rightarrow> Measure_init q b a g xs)))"
| "Measure_init_bound _ = Inl PyTypeError"

text \<open>The call \<^verbatim>\<open>Measure(*args, **kwargs)\<close>.\<close>

definition Measure_call :: "pyval list \<Rightarrow> (string \<times> pyval) list \<Rightarrow> error + Measure" where
  "Measure_call args kwargs =
     (case bind_arguments Measure_params args kwargs of
        Inl e \<Rightarrow> Inl e
      | Inr vs \<Rightarrow> Measure_init_bound vs)"

text \<open>
  \<^verbatim>\<open>measure\<close> and \<^verbatim>\<open>measure_z\<close> of \<^verbatim>\<open>default_measurements.py\<close>: the
  functions under the decorator, on a \<^verbatim>\<open>Qubit\<close> \<open>q\<close> and a \<^verbatim>\<open>Bit\<close> \<open>b\<close>.
\<close>

fun measure_function :: "Expression list \<Rightarrow> error + Measure" where
  "measure_function [QubitE q, BitE b] =
     Measure_call []
       [(''qubits'', PyList [PyInt (q_index q)]), (''bit'', PyExpr (BitE b)),
        (''axis'', PyTuple [PyInt 0, PyInt 0, PyInt 1])]"
| "measure_function _ = Inl PyTypeError"

fun measure_z_function :: "Expression list \<Rightarrow> error + Measure" where
  "measure_z_function [QubitE q, BitE b] =
     Measure_call []
       [(''qubits'', PyList [PyExpr (QubitE q)]), (''bit'', PyExpr (BitE b)),
        (''axis'', PyTuple [PyInt 0, PyInt 0, PyInt 1])]"
| "measure_z_function _ = Inl PyTypeError"

text \<open>The two decorated names, called as \<^verbatim>\<open>measure(*args, **kwargs)\<close>.\<close>

definition measure :: "Expression list \<Rightarrow> (string \<times> Expression) list \<Rightarrow> error + Measure" where
  "measure = named_measurement
     \<lparr>gen_name = ''measure'', gen_params = [(''q'', None), (''b'', None)],
      gen_body = measure_function\<rparr>"

definition measure_z :: "Expression list \<Rightarrow> (string \<times> Expression) list \<Rightarrow> error + Measure" where
  "measure_z = named_measurement
     \<lparr>gen_name = ''measure_z'', gen_params = [(''q'', None), (''b'', None)],
      gen_body = measure_z_function\<rparr>"

section \<open>Properties\<close>

lemma check_repeated_iff: "check_repeated_qubit_operands qs \<longleftrightarrow> \<not> distinct qs"
  unfolding check_repeated_qubit_operands_def
  by (metis card_distinct distinct_card)

lemma short_distinct: "length ops < 2 \<Longrightarrow> distinct ops"
  by (cases ops) (auto simp: less_Suc_eq)

text \<open>
  Claim C5. \<^verbatim>\<open>MatrixGate\<close> construction raises exactly when the operand list
  has fewer than two qubits (\<open>InvalidOperandCount\<close>), or a qubit is repeated
  (\<open>DuplicateOperand\<close>), or the matrix shape is not \<open>(2^n, 2^n)\<close> for \<open>n\<close> operands
  (\<open>MatrixShapeMismatch\<close>); otherwise it succeeds and stores the matrix and the
  operands unchanged.
\<close>

theorem MatrixGate_init_errors:
  "(MatrixGate_init m ops gen args = Inl InvalidOperandCount \<longleftrightarrow> length ops < 2) \<and>
   (MatrixGate_init m ops gen args = Inl DuplicateOperand \<longleftrightarrow> \<not> distinct ops) \<and>
   (MatrixGate_init m ops gen args = Inl MatrixShapeMismatch \<longleftrightarrow>
      2 \<le> length ops \<and> distinct ops \<and> shape m \<noteq> [2 ^ length ops, 2 ^ length ops]) \<and>
   ((\<exists>e. MatrixGate_init m ops gen args = Inl e) \<longleftrightarrow>
      length ops < 2 \<or> \<not> distinct ops \<or> shape m \<noteq> [2 ^ length ops, 2 ^ length ops]) \<and>
   (\<not> (length ops < 2 \<or> \<not> distinct ops \<or> shape m \<noteq> [2 ^ length ops, 2 ^ length ops]) \<longleftrightarrow>
      (\<exists>g. MatrixGate_init m ops gen args = Inr g \<and> matrix g = m \<and> operands g = ops))"
proof (intro conjI)
  note d = MatrixGate_init_def check_repeated_iff
  show "MatrixGate_init m ops gen args = Inl InvalidOperandCount \<longleftrightarrow> length ops < 2"
    by (simp add: d)
  show "MatrixGate_init m ops gen args = Inl DuplicateOperand \<longleftrightarrow> \<not> distinct ops"
    using short_distinct [of ops] by (auto simp: d)
  show "MatrixGate_init m ops gen args = Inl MatrixShapeMismatch \<longleftrightarrow>
      2 \<le> length ops \<and> distinct ops \<and> shape m \<noteq> [2 ^ length ops, 2 ^ length ops]"
    by (auto simp: d)
  show "(\<exists>e. MatrixGate_init m ops gen args = Inl e) \<longleftrightarrow>
      length ops < 2 \<or> \<not> distinct ops \<or> shape m \<noteq> [2 ^ length ops, 2 ^ length ops]"
    by (simp add: d)
  show "\<not> (length ops < 2 \<or> \<not> distinct ops \<or> shape m \<noteq> [2 ^ length ops, 2 ^ length ops]) \<longleftrightarrow>
      (\<exists>g. MatrixGate_init m ops gen args = Inr g \<and> matrix g = m \<and> operands g = ops)"
    by (simp add: d)
qed

theorem MatrixGate_init_errors_witness:
  "MatrixGate_init \<lparr>shape = [2, 2], entries = [1, 0, 0, 1]\<rparr> [Qubit 0, Qubit 1] None None
     = Inl MatrixShapeMismatch \<and>
   MatrixGate_init \<lparr>shape = [4, 4], entries = []\<rparr> [Qubit 0] None None
     = Inl InvalidOperandCount \<and>
   MatrixGate_init \<lparr>shape = [4, 4], entries = []\<rparr> [Qubit 1, Qubit 1] None None
     = Inl DuplicateOperand \<and>
   (\<exists>g. MatrixGate_init \<lparr>shape = [4, 4], entries = []\<rparr> [Qubit 0, Qubit 1] None None = Inr g \<and>
      matrix g = \<lparr>shape = [4, 4], entries = []\<rparr> \<and> operands g = [Qubit 0, Qubit 1])"
  using MatrixGate_init_errors [of "\<lparr>shape = [2, 2], entries = [1, 0, 0, 1]\<rparr>" "[Qubit 0, Qubit 1]" None None]
    MatrixGate_init_errors [of "\<lparr>shape = [4, 4], entries = []\<rparr>" "[Qubit 0, Qubit 1]" None None]
    MatrixGate_init_errors [of "\<lparr>shape = [4, 4], entries = []\<rparr>" "[Qubit 0]" None None]
    MatrixGate_init_errors [of "\<lparr>shape = [4, 4], entries = []\<rparr>" "[Qubit 1, Qubit 1]" None None]
  by simp

subsection \<open>Axis equality\<close>

lemma array_equal_iff: "array_equal xs ys \<longleftrightarrow> xs = ys"
proof -
  have "length xs = length ys \<Longrightarrow> (\<forall>(x, y) \<in> set (zip xs ys). x = y) \<longleftrightarrow> xs = ys"
    by (induction xs ys rule: list_induct2) auto
  then show ?thesis unfolding array_equal_def by auto
qed

lemma linalg_norm3: "linalg_norm [x, y, z] = sqrt (x\<^sup>2 + y\<^sup>2 + z\<^sup>2)"
  by (simp add: linalg_norm_def add.assoc)

lemma linalg_norm_pythagorean: "linalg_norm [m\<^sup>2 - n\<^sup>2, 2 * m * n, 0] = m\<^sup>2 + n\<^sup>2"
proof -
  have "(m\<^sup>2 - n\<^sup>2)\<^sup>2 + (2 * m * n)\<^sup>2 + 0\<^sup>2 = (m\<^sup>2 + n\<^sup>2)\<^sup>2"
    by (simp add: power2_eq_square algebra_simps)
  moreover have "0 \<le> m\<^sup>2 + n\<^sup>2" by simp
  ultimately show ?thesis
    unfolding linalg_norm3 by (simp only: real_sqrt_abs abs_of_nonneg)
qed

lemma list3_nth_eq:
  assumes "length xs = 3" "length ys = 3"
  shows "xs = ys \<longleftrightarrow> xs ! 0 = ys ! 0 \<and> xs ! 1 = ys ! 1 \<and> xs ! 2 = (ys ! 2 :: 'a)"
proof -
  obtain a b c where xs: "xs = [a, b, c]"
    using assms(1) by (auto simp: numeral_3_eq_3 length_Suc_conv)
  obtain a' b' c' where ys: "ys = [a', b', c']"
    using assms(2) by (auto simp: numeral_3_eq_3 length_Suc_conv)
  show ?thesis by (simp add: xs ys)
qed

text \<open>
  Claim C3, as amended. \<^verbatim>\<open>Axis.__eq__\<close> is \<^verbatim>\<open>np.array_equal\<close>: two axes are
  equal exactly when their three normalized components are identical; no
  tolerance enters the comparison.
\<close>

theorem Axis_eq_exact:
  "length (axis_value a) = 3 \<Longrightarrow> length (axis_value b) = 3 \<Longrightarrow>
   Axis_eq a b \<longleftrightarrow>
     axis_value a ! 0 = axis_value b ! 0 \<and>
     axis_value a ! 1 = axis_value b ! 1 \<and>
     axis_value a ! 2 = axis_value b ! 2"
  unfolding Axis_eq_def array_equal_iff by (rule list3_nth_eq)

lemma Axis_init_pythagorean:
  "Axis_init (ArrayLike [m\<^sup>2 - n\<^sup>2, 2 * m * n, 0]) =
     Inr \<lparr>axis_value = [(m\<^sup>2 - n\<^sup>2) / (m\<^sup>2 + n\<^sup>2), 2 * m * n / (m\<^sup>2 + n\<^sup>2), 0]\<rparr>"
  by (simp add: Axis_init_def normalize_axis_def linalg_norm_pythagorean)

text \<open>
  Claim C3 as stated fails: the axes built from \<open>(1, 0, 0)\<close> and from
  \<open>(999999999999999999, 2000000000, 0)\<close> (of norm \<open>1000000000000000001\<close>) have
  normalized components that differ by less than \<open>1e-8\<close>, and they compare unequal.
\<close>

theorem Axis_eq_tolerance_counterexample:
  "Axis_init (ArrayLike [1, 0, 0]) = Inr \<lparr>axis_value = [1, 0, 0]\<rparr> \<and>
   Axis_init (ArrayLike [999999999999999999, 2000000000, 0]) =
     Inr \<lparr>axis_value = [999999999999999999 / 1000000000000000001,
                        2000000000 / 1000000000000000001, 0]\<rparr> \<and>
   within_ATOL (1 / 10 ^ 8) [1, 0, 0]
     [999999999999999999 / 1000000000000000001, 2000000000 / 1000000000000000001, 0] \<and>
   \<not> Axis_eq \<lparr>axis_value = [1, 0, 0]\<rparr>
     \<lparr>axis_value = [999999999999999999 / 1000000000000000001,
                    2000000000 / 1000000000000000001, 0]\<rparr>"
proof (intro conjI)
  show "Axis_init (ArrayLike [1, 0, 0]) = Inr \<lparr>axis_value = [1, 0, 0]\<rparr>"
    using Axis_init_pythagorean [of 1 0] by simp
  show "Axis_init (ArrayLike [999999999999999999, 2000000000, 0]) =
     Inr \<lparr>axis_value = [999999999999999999 / 1000000000000000001,
                        2000000000 / 1000000000000000001, 0]\<rparr>"
    using Axis_init_pythagorean [of 1000000000 1] by simp
  show "within_ATOL (1 / 10 ^ 8) [1, 0, 0]
     [999999999999999999 / 1000000000000000001, 2000000000 / 1000000000000000001, 0]"
    by (simp add: within_ATOL_def)
  show "\<not> Axis_eq \<lparr>axis_value = [1, 0, 0]\<rparr>
     \<lparr>axis_value = [999999999999999999 / 1000000000000000001,
                    2000000000 / 1000000000000000001, 0]\<rparr>"
    by (simp add: Axis_eq_def array_equal_iff)
qed

theorem Axis_eq_exact_witness:
  "Axis_eq \<lparr>axis_value = [0, 0, 1]\<rparr> \<lparr>axis_value = [0, 0, 1]\<rparr> \<and>
   \<not> Axis_eq \<lparr>axis_value = [0, 0, 1]\<rparr> \<lparr>axis_value = [0, 1, 0]\<rparr>"
  using Axis_eq_exact [of "\<lparr>axis_value = [0, 0, 1]\<rparr>" "\<lparr>axis_value = [0, 0, 1]\<rparr>"]
    Axis_eq_exact [of "\<lparr>axis_value = [0, 0, 1]\<rparr>" "\<lparr>axis_value = [0, 1, 0]\<rparr>"]
  by simp

subsection \<open>Measure equality\<close>

lemma within_ATOL_allclose:
  assumes "0 \<le> rtol" "within_ATOL ATOL a b"
  shows "allclose a b rtol ATOL"
proof -
  have "\<bar>x - y\<bar> \<le> ATOL \<Longrightarrow> \<bar>x - y\<bar> \<le> ATOL + rtol * \<bar>y\<bar>" for x y :: real
    using assms(1) by (smt (verit) mult_nonneg_nonneg abs_ge_zero)
  then show ?thesis
    using assms(2) unfolding within_ATOL_def allclose_def
    by (auto elim: list_all2_mono)
qed

text \<open>
  Claim C9. \<^verbatim>\<open>Measure.__eq__\<close> reads the qubit and the axis only: two
  measurements on the same qubit whose axes agree within \<open>ATOL\<close> are equal,
  whatever their bits, generators and arguments are.
\<close>

theorem Measure_eq_ignores_bit:
  assumes "m_qubit m1 = m_qubit m2"
    and "within_ATOL ATOL (axis_value (m_axis m1)) (axis_value (m_axis m2))"
  shows "Measure_eq ATOL (m1\<lparr>m_bit := b1, m_generator := g1, m_arguments := a1\<rparr>)
                         (m2\<lparr>m_bit := b2, m_generator := g2, m_arguments := a2\<rparr>)"
  using assms within_ATOL_allclose [of default_rtol ATOL]
  by (simp add: Measure_eq_def default_rtol_def)

theorem Measure_eq_ignores_bit_witness:
  "Measure_eq (1 / 10 ^ 8)
     \<lparr>m_generator = Some ''measure'', m_arguments = Some [QubitE (Qubit 0), BitE (Bit 0)],
      m_qubit = Qubit 0, m_bit = Bit 0, m_axis = \<lparr>axis_value = [0, 0, 1]\<rparr>\<rparr>
     \<lparr>m_generator = None, m_arguments = None,
      m_qubit = Qubit 0, m_bit = Bit 5, m_axis = \<lparr>axis_value = [0, 0, 1]\<rparr>\<rparr>"
  using Measure_eq_ignores_bit [where
      ?m1.0 = "\<lparr>m_generator = None, m_arguments = None,
        m_qubit = Qubit 0, m_bit = Bit 0, m_axis = \<lparr>axis_value = [0, 0, 1]\<rparr>\<rparr>" and
      ?m2.0 = "\<lparr>m_generator = None, m_arguments = None,
        m_qubit = Qubit 0, m_bit = Bit 0, m_axis = \<lparr>axis_value = [0, 0, 1]\<rparr>\<rparr>" and
      ATOL = "1 / 10 ^ 8" and ?b1.0 = "Bit 0" and ?g1.0 = "Some ''measure''" and
      ?a1.0 = "Some [QubitE (Qubit 0), BitE (Bit 0)]" and
      ?b2.0 = "Bit 5" and ?g2.0 = None and ?a2.0 = None]
  by (simp add: within_ATOL_def)

subsection \<open>Equality of rotations\<close>

lemma sum_squares_unit:
  assumes "linalg_norm [x, y, z] = 1"
  shows "x\<^sup>2 + y\<^sup>2 + z\<^sup>2 = 1"
proof -
  have "sqrt (x\<^sup>2 + y\<^sup>2 + z\<^sup>2) = 1" using assms by (simp add: linalg_norm3)
  then show ?thesis by (simp add: real_sqrt_eq_1_iff)
qed

lemma close_both_small:
  fixes x y :: real
  assumes "\<bar>x - y\<bar> \<le> default_atol + default_rtol * \<bar>y\<bar>"
    and "\<bar>x + y\<bar> \<le> default_atol + default_rtol * \<bar>y\<bar>"
  shows "y\<^sup>2 < 1 / 4"
proof -
  have "\<bar>y\<bar> < 1 / 2"
    using assms unfolding default_atol_def default_rtol_def by (simp add: abs_if split: if_splits)
  then have "\<bar>y\<bar> * \<bar>y\<bar> < (1 / 2) * (1 / 2)"
    by (intro mult_strict_mono) auto
  then show ?thesis by (simp add: power2_eq_square)
qed

lemma not_close_to_both:
  assumes len: "length v = 3" and unit: "linalg_norm v = 1"
    and c1: "allclose u v default_rtol default_atol"
    and c2: "allclose u (map uminus v) default_rtol default_atol"
  shows False
proof -
  obtain x y z where v: "v = [x, y, z]"
    using len by (auto simp: numeral_3_eq_3 length_Suc_conv)
  from c1 obtain a b c where u: "u = [a, b, c]"
    unfolding allclose_def v by (auto simp: list_all2_Cons2)
  have h: "\<bar>a - x\<bar> \<le> default_atol + default_rtol * \<bar>x\<bar>"
    "\<bar>b - y\<bar> \<le> default_atol + default_rtol * \<bar>y\<bar>"
    "\<bar>c - z\<bar> \<le> default_atol + default_rtol * \<bar>z\<bar>"
    "\<bar>a + x\<bar> \<le> default_atol + default_rtol * \<bar>x\<bar>"
    "\<bar>b + y\<bar> \<le> default_atol + default_rtol * \<bar>y\<bar>"
    "\<bar>c + z\<bar> \<le> default_atol + default_rtol * \<bar>z\<bar>"
    using c1 c2 unfolding allclose_def u v by simp_all
  have "x\<^sup>2 < 1 / 4" "y\<^sup>2 < 1 / 4" "z\<^sup>2 < 1 / 4"
    using h by (blast intro: close_both_small)+
  moreover have "x\<^sup>2 + y\<^sup>2 + z\<^sup>2 = 1"
    using unit unfolding v by (rule sum_squares_unit)
  ultimately show False by linarith
qed

text \<open>
  Claim C4, as amended. Two rotations are equal exactly when they act on the same
  qubit, their phases differ by at most \<open>ATOL\<close>, and either the axes are close and
  the angles differ by less than \<open>ATOL\<close>, or one axis is close to the negated other
  and the angles sum to less than \<open>ATOL\<close> in absolute value; the closeness of the
  axes is \<^verbatim>\<open>np.allclose\<close> with numpy's default tolerances
  (\<open>|x - y| \<le> 1e-8 + 1e-5 * |y|\<close> on every component), not \<open>ATOL\<close>. The second
  axis is a unit vector, as every stored axis is.
\<close>

theorem BlochSphereRotation_eq_iff:
  assumes "length (axis_value (axis r')) = 3"
    and "linalg_norm (axis_value (axis r')) = 1"
  shows "BlochSphereRotation_eq ATOL r r' \<longleftrightarrow>
     qubit r = qubit r' \<and> \<bar>phase r - phase r'\<bar> \<le> ATOL \<and>
     (allclose (axis_value (axis r)) (axis_value (axis r')) default_rtol default_atol \<and>
        \<bar>angle r - angle r'\<bar> < ATOL \<or>
      allclose (axis_value (axis r)) (map uminus (axis_value (axis r'))) default_rtol default_atol \<and>
        \<bar>angle r + angle r'\<bar> < ATOL)"
  using not_close_to_both [OF assms, of "axis_value (axis r)"]
  unfolding BlochSphereRotation_eq_def by auto

theorem BlochSphereRotation_eq_iff_witness:
  "\<not> BlochSphereRotation_eq (1 / 10 ^ 8)
       \<lparr>generator = None, arguments = None, qubit = Qubit 0,
        axis = \<lparr>axis_value = [1, 0, 0]\<rparr>, angle = 1, phase = 0\<rparr>
       \<lparr>generator = None, arguments = None, qubit = Qubit 1,
        axis = \<lparr>axis_value = [1, 0, 0]\<rparr>, angle = 1, phase = 0\<rparr> \<and>
   BlochSphereRotation_eq (1 / 10 ^ 8)
       \<lparr>generator = None, arguments = None, qubit = Qubit 0,
        axis = \<lparr>axis_value = [1, 0, 0]\<rparr>, angle = 1, phase = 0\<rparr>
       \<lparr>generator = None, arguments = None, qubit = Qubit 0,
        axis = \<lparr>axis_value = [- 1, 0, 0]\<rparr>, angle = - 1, phase = 0\<rparr>"
  using BlochSphereRotation_eq_iff [where ATOL = "1 / 10 ^ 8" and
      r = "\<lparr>generator = None, arguments = None, qubit = Qubit 0,
        axis = \<lparr>axis_value = [1, 0, 0]\<rparr>, angle = 1, phase = 0\<rparr>" and
      r' = "\<lparr>generator = None, arguments = None, qubit = Qubit 1,
        axis = \<lparr>axis_value = [1, 0, 0]\<rparr>, angle = 1, phase = 0\<rparr>"]
    BlochSphereRotation_eq_iff [where ATOL = "1 / 10 ^ 8" and
      r = "\<lparr>generator = None, arguments = None, qubit = Qubit 0,
        axis = \<lparr>axis_value = [1, 0, 0]\<rparr>, angle = 1, phase = 0\<rparr>" and
      r' = "\<lparr>generator = None, arguments = None, qubit = Qubit 0,
        axis = \<lparr>axis_value = [- 1, 0, 0]\<rparr>, angle = - 1, phase = 0\<rparr>"]
  by (simp add: linalg_norm3 allclose_def default_rtol_def default_atol_def)

text \<open>
  Claim C4 as stated fails on the comparison of the axes: the unit axes
  \<open>(3/5, 4/5, 0)\<close> and \<open>(3000004000001, 4000002000000, 0) / 5000004000001\<close> differ
  by about \<open>3e-7\<close> on two components, far more than \<open>ATOL\<close>, and two rotations
  that differ in nothing else compare equal.
\<close>

theorem BlochSphereRotation_eq_counterexample:
  "Axis_init (ArrayLike [3, 4, 0]) = Inr \<lparr>axis_value = [3 / 5, 4 / 5, 0]\<rparr> \<and>
   Axis_init (ArrayLike [3000004000001, 4000002000000, 0]) =
     Inr \<lparr>axis_value = [3000004000001 / 5000004000001, 4000002000000 / 5000004000001, 0]\<rparr> \<and>
   BlochSphereRotation_eq (1 / 10 ^ 8)
     \<lparr>generator = None, arguments = None, qubit = Qubit 0,
      axis = \<lparr>axis_value = [3 / 5, 4 / 5, 0]\<rparr>, angle = 1, phase = 0\<rparr>
     \<lparr>generator = None, arguments = None, qubit = Qubit 0,
      axis = \<lparr>axis_value = [3000004000001 / 5000004000001, 4000002000000 / 5000004000001, 0]\<rparr>,
      angle = 1, phase = 0\<rparr> \<and>
   \<not> spec_rotation_eq (1 / 10 ^ 8)
     \<lparr>generator = None, arguments = None, qubit = Qubit 0,
      axis = \<lparr>axis_value = [3 / 5, 4 / 5, 0]\<rparr>, angle = 1, phase = 0\<rparr>
     \<lparr>generator = None, arguments = None, qubit = Qubit 0,
      axis = \<lparr>axis_value = [3000004000001 / 5000004000001, 4000002000000 / 5000004000001, 0]\<rparr>,
      angle = 1, phase = 0\<rparr>"
proof (intro conjI)
  show "Axis_init (ArrayLike [3, 4, 0]) = Inr \<lparr>axis_value = [3 / 5, 4 / 5, 0]\<rparr>"
    using Axis_init_pythagorean [of 2 1] by simp
  show "Axis_init (ArrayLike [3000004000001, 4000002000000, 0]) =
     Inr \<lparr>axis_value = [3000004000001 / 5000004000001, 4000002000000 / 5000004000001, 0]\<rparr>"
    using Axis_init_pythagorean [of 2000001 1000000] by simp
  show "BlochSphereRotation_eq (1 / 10 ^ 8)
     \<lparr>generator = None, arguments = None, qubit = Qubit 0,
      axis = \<lparr>axis_value = [3 / 5, 4 / 5, 0]\<rparr>, angle = 1, phase = 0\<rparr>
     \<lparr>generator = None, arguments = None, qubit = Qubit 0,
      axis = \<lparr>axis_value = [3000004000001 / 5000004000001, 4000002000000 / 5000004000001, 0]\<rparr>,
      angle = 1, phase = 0\<rparr>"
    by (simp add: BlochSphereRotation_eq_def allclose_def default_rtol_def default_atol_def)
  show "\<not> spec_rotation_eq (1 / 10 ^ 8)
     \<lparr>generator = None, arguments = None, qubit = Qubit 0,
      axis = \<lparr>axis_value = [3 / 5, 4 / 5, 0]\<rparr>, angle = 1, phase = 0\<rparr>
     \<lparr>generator = None, arguments = None, qubit = Qubit 0,
      axis = \<lparr>axis_value = [3000004000001 / 5000004000001, 4000002000000 / 5000004000001, 0]\<rparr>,
      angle = 1, phase = 0\<rparr>"
    by (simp add: spec_rotation_eq_def within_ATOL_def)
qed

subsection \<open>Unit axes\<close>

lemma unit_axis_components:
  assumes "length v = 3" "linalg_norm v = 1"
  obtains x y z where "v = [x, y, z]" "x\<^sup>2 + y\<^sup>2 + z\<^sup>2 = 1"
proof -
  obtain x y z where v: "v = [x, y, z]"
    using assms(1) by (auto simp: numeral_3_eq_3 length_Suc_conv)
  with assms(2) have "x\<^sup>2 + y\<^sup>2 + z\<^sup>2 = 1" by (simp add: sum_squares_unit)
  with v show ?thesis by (rule that)
qed

lemma index_a_b: "index_a d < 3 \<and> index_b d < 3 \<and> index_a d \<noteq> index_b d"
  by (cases d) (simp_all add: index_a_def index_b_def)

lemma unit_axis_pair:
  assumes "length v = 3" "linalg_norm v = 1" "i < 3" "j < 3" "i \<noteq> j"
  shows "(v ! i)\<^sup>2 + (v ! j)\<^sup>2 \<le> 1"
proof -
  obtain x y z where v: "v = [x, y, z]" and u: "x\<^sup>2 + y\<^sup>2 + z\<^sup>2 = 1"
    using assms(1,2) by (rule unit_axis_components)
  have "i = 0 \<or> i = 1 \<or> i = 2" "j = 0 \<or> j = 1 \<or> j = 2"
    using assms(3,4) by auto
  then show ?thesis
    using u assms(5) zero_le_power2 [of x] zero_le_power2 [of y] zero_le_power2 [of z]
    unfolding v by (elim disjE; simp; linarith)
qed

lemma decomposer_components:
  assumes "length v = 3" "linalg_norm v = 1"
  shows "(v ! index_a d)\<^sup>2 + (v ! index_b d)\<^sup>2 \<le> 1"
  using unit_axis_pair [OF assms] index_a_b [of d] by blast

lemma square_le_1_abs:
  fixes a :: real
  assumes "a\<^sup>2 + b\<^sup>2 \<le> 1"
  shows "- 1 \<le> a \<and> a \<le> 1"
proof -
  have "a\<^sup>2 \<le> 1" using assms zero_le_power2 [of b] by linarith
  then have "\<bar>a\<bar> \<le> 1" by (simp add: abs_square_le_1)
  then show ?thesis by (simp add: abs_le_iff)
qed

lemma sum_list_scaled_squares:
  fixes n :: real
  shows "(\<Sum>x\<leftarrow>v. (x / n)\<^sup>2) = (\<Sum>x\<leftarrow>v. x\<^sup>2) / n\<^sup>2"
  by (induction v) (simp_all add: power_divide add_divide_distrib)

lemma linalg_norm_normalize:
  assumes "linalg_norm v \<noteq> 0"
  shows "linalg_norm (normalize_axis v) = 1"
proof -
  let ?n = "linalg_norm v"
  have pos: "0 \<le> (\<Sum>x\<leftarrow>v. x\<^sup>2)" by (rule sum_list_nonneg) auto
  have n2: "?n\<^sup>2 = (\<Sum>x\<leftarrow>v. x\<^sup>2)"
    unfolding linalg_norm_def using pos by simp
  have "(\<Sum>x\<leftarrow>map (\<lambda>x. x / ?n) v. x\<^sup>2) = (\<Sum>x\<leftarrow>v. (x / ?n)\<^sup>2)"
    by (simp add: comp_def)
  also have "\<dots> = (\<Sum>x\<leftarrow>v. x\<^sup>2) / ?n\<^sup>2"
    by (rule sum_list_scaled_squares)
  also have "\<dots> = 1" using assms by (simp add: n2 [symmetric])
  finally have "(\<Sum>x\<leftarrow>map (\<lambda>x. x / ?n) v. x\<^sup>2) = 1" .
  then show ?thesis
    unfolding normalize_axis_def linalg_norm_def [of "map (\<lambda>x. x / ?n) v"] by simp
qed

lemma Axis_init_ArrayLike_unit:
  assumes "length v = 3" "linalg_norm v \<noteq> 0"
  shows "\<exists>ax. Axis_init (ArrayLike v) = Inr ax \<and> length (axis_value ax) = 3 \<and>
     linalg_norm (axis_value ax) = 1"
  using assms linalg_norm_normalize [OF assms(2)]
  by (simp add: Axis_init_def normalize_axis_def)

subsection \<open>Rounding to a double\<close>

lemma round_half_even_eq:
  assumes "of_int M - 1 / 2 < y" "y < of_int M + 1 / 2"
  shows "round_half_even y = M"
proof (cases "of_int M \<le> y")
  case True
  then have "\<lfloor>y\<rfloor> = M" using assms(2) by (intro floor_unique) simp_all
  then show ?thesis using assms(2) by (simp add: round_half_even_def)
next
  case False
  then have "\<lfloor>y\<rfloor> = M - 1" using assms(1) by (intro floor_unique) simp_all
  then show ?thesis using assms(1) by (simp add: round_half_even_def)
qed

lemma float64_round_scaled:
  assumes "2 ^ 52 \<le> \<bar>x\<bar> * 2 ^ k" "\<bar>x\<bar> * 2 ^ k < 2 ^ 53"
    and "of_int M - 1 / 2 < x * 2 ^ k" "x * 2 ^ k < of_int M + 1 / 2"
  shows "float64_round x = of_int M / 2 ^ k"
proof -
  have x: "x \<noteq> 0" using assms(1) by auto
  have p: "2 powr (of_int (52 - int k)) = 2 ^ 52 / (2 ^ k :: real)"
    by (simp add: powr_diff powr_realpow)
  have p1: "2 powr (of_int (52 - int k) + 1) = 2 ^ 53 / (2 ^ k :: real)"
    by (simp add: powr_diff powr_add powr_realpow)
  have "\<lfloor>log 2 \<bar>x\<bar>\<rfloor> = 52 - int k"
  proof -
    have "2 ^ 52 / 2 ^ k \<le> \<bar>x\<bar>" using assms(1) by (simp add: pos_divide_le_eq)
    moreover have "\<bar>x\<bar> < 2 ^ 53 / 2 ^ k" using assms(2) by (simp add: pos_less_divide_eq)
    ultimately show ?thesis
      using x floor_log_eq_powr_iff [of "\<bar>x\<bar>" 2 "52 - int k"] p p1 by simp
  qed
  moreover have "2 powr (of_int (52 - int k) - 52) = 1 / (2 ^ k :: real)"
    by (simp add: powr_minus powr_realpow inverse_eq_divide)
  moreover have "round_half_even (x / (1 / 2 ^ k)) = M"
    using assms(3,4) by (intro round_half_even_eq) simp_all
  ultimately show ?thesis using x by (simp add: float64_round_def Let_def)
qed

lemma float64_round_sqrt_scaled:
  assumes "0 \<le> x" "(2 ^ 52)\<^sup>2 \<le> x * (2 ^ k)\<^sup>2" "x * (2 ^ k)\<^sup>2 < (2 ^ 53)\<^sup>2"
    and "0 < M" "(of_int M - 1 / 2)\<^sup>2 < x * (2 ^ k)\<^sup>2" "x * (2 ^ k)\<^sup>2 < (of_int M + 1 / 2)\<^sup>2"
  shows "float64_round (sqrt x) = of_int M / 2 ^ k"
proof -
  have s: "sqrt x * 2 ^ k = sqrt (x * (2 ^ k)\<^sup>2)"
    by (simp add: real_sqrt_mult)
  have a: "\<bar>sqrt x\<bar> = sqrt x" using assms(1) by simp
  show ?thesis
  proof (rule float64_round_scaled)
    show "2 ^ 52 \<le> \<bar>sqrt x\<bar> * 2 ^ k"
      unfolding a s using assms(2) by (rule real_le_rsqrt)
    show "\<bar>sqrt x\<bar> * 2 ^ k < 2 ^ 53"
      unfolding a s using assms(3) by (intro real_less_lsqrt) simp_all
    show "of_int M - 1 / 2 < sqrt x * 2 ^ k"
      unfolding s using assms(5) by (rule real_less_rsqrt)
    show "sqrt x * 2 ^ k < of_int M + 1 / 2"
      unfolding s using assms(4,6) by (intro real_less_lsqrt) simp_all
  qed
qed

subsection \<open>The axis \<open>(8, 1, 0)\<close> in doubles\<close>

lemma norm_8_1_0: "float64_round (sqrt 65) = 4538647623875280 / 2 ^ 49"
  using float64_round_sqrt_scaled [of 65 49 4538647623875280] by (simp add: power2_eq_square)

lemma component_a: "float64_round (8 / (4538647623875280 / 2 ^ 49)) = 8937644551631322 / 2 ^ 53"
  using float64_round_scaled [of "8 / (4538647623875280 / 2 ^ 49)" 53 8937644551631322] by simp

lemma component_b: "float64_round (1 / (4538647623875280 / 2 ^ 49)) = 8937644551631322 / 2 ^ 56"
  using float64_round_scaled [of "1 / (4538647623875280 / 2 ^ 49)" 56 8937644551631322] by simp

lemma square_a: "float64_round ((8937644551631322 / 2 ^ 53)\<^sup>2) = 8868626958514209 / 2 ^ 53"
  using float64_round_scaled [of "(8937644551631322 / 2 ^ 53)\<^sup>2" 53 8868626958514209]
  by (simp add: power2_eq_square)

lemma one_minus_square:
  "float64_round (1 - 8868626958514209 / 2 ^ 53) = 8868626958514112 / 2 ^ 59"
  using float64_round_scaled [of "1 - 8868626958514209 / 2 ^ 53" 59 8868626958514112] by simp

lemma sqrt_one_minus_square:
  "float64_round (sqrt (8868626958514112 / 2 ^ 59)) = 8937644551631273 / 2 ^ 56"
  using float64_round_sqrt_scaled [of "8868626958514112 / 2 ^ 59" 56 8937644551631273]
  by (simp add: power2_eq_square)

lemma quotient_above_one:
  "float64_round (8937644551631322 / 2 ^ 56 / (8937644551631273 / 2 ^ 56))
     = 4503599627370521 / 2 ^ 52"
  using float64_round_scaled
    [of "8937644551631322 / 2 ^ 56 / (8937644551631273 / 2 ^ 56)" 52 4503599627370521]
  by simp

lemma degenerate_branch_8_1_0:
  "degenerate_branch (1 / 10 ^ 8) (8937644551631322 / 2 ^ 53) (8937644551631322 / 2 ^ 56)
     = Inl MathDomainError"
proof -
  have g1: "\<not> \<bar>8937644551631322 / 2 ^ 53\<bar> < (1::real) / 10 ^ 8" by simp
  have g2: "\<not> (\<bar>8937644551631322 / 2 ^ 53 - 1\<bar> < (1::real) / 10 ^ 8 \<or>
                \<bar>8937644551631322 / 2 ^ 53 + 1\<bar> < (1::real) / 10 ^ 8)" by simp
  have a: "math_acos (8937644551631322 / 2 ^ 53) = Inr (arccos (8937644551631322 / 2 ^ 53))"
    by (simp add: math_acos_def)
  have s: "math_sqrt (8868626958514112 / 2 ^ 59) = Inr (sqrt (8868626958514112 / 2 ^ 59))"
    by (simp add: math_sqrt_def)
  have q: "math_acos (4503599627370521 / 2 ^ 52) = Inl MathDomainError"
    by (simp add: math_acos_def)
  show ?thesis
    unfolding degenerate_branch_def
    by (simp only: g1 g2 if_False a sum.case square_a one_minus_square s
        sqrt_one_minus_square quotient_above_one q)
qed

lemma get_decomposition_angles_8_1_0:
  "get_decomposition_angles (1 / 10 ^ 8) XYXDecomposer pi
     (AxisObj \<lparr>axis_value = [8937644551631322 / 2 ^ 53, 8937644551631322 / 2 ^ 56, 0]\<rparr>)
   = Inl MathDomainError"
proof -
  have ax: "Axis_init (AxisObj \<lparr>axis_value = [8937644551631322 / 2 ^ 53, 8937644551631322 / 2 ^ 56, 0]\<rparr>)
      = Inr \<lparr>axis_value = [8937644551631322 / 2 ^ 53, 8937644551631322 / 2 ^ 56, 0]\<rparr>"
    by (simp add: Axis_init_def)
  have i: "axis_value \<lparr>axis_value = [8937644551631322 / 2 ^ 53, 8937644551631322 / 2 ^ 56, 0]\<rparr>
        ! index_a XYXDecomposer = (8937644551631322 / 2 ^ 53 :: real)"
    "axis_value \<lparr>axis_value = [8937644551631322 / 2 ^ 53, 8937644551631322 / 2 ^ 56, 0]\<rparr>
        ! index_b XYXDecomposer = (8937644551631322 / 2 ^ 56 :: real)"
    by (simp_all add: index_a_def index_b_def)
  have r: "\<not> \<not> (- pi + 1 / 10 ^ 8 < pi \<and> pi \<le> pi + 1 / 10 ^ 8)" "\<bar>pi - pi\<bar> < 1 / 10 ^ 8"
    using pi_ge_two by simp_all
  show ?thesis
    unfolding get_decomposition_angles_def ax sum.case i
    by (simp only: r if_False if_True degenerate_branch_8_1_0 sum.case)
qed

subsection \<open>Where the decomposition returns\<close>

lemma math_sqrt_nonneg: "0 \<le> x \<Longrightarrow> math_sqrt x = Inr (sqrt x)"
  by (simp add: math_sqrt_def)

lemma math_acos_clamped:
  "math_acos (max (min x 1) (- 1)) = Inr (arccos (max (min x 1) (- 1)))"
  by (simp add: math_acos_def)

lemma math_acos_in_domain: "\<bar>x\<bar> \<le> 1 \<Longrightarrow> math_acos x = Inr (arccos x)"
  by (simp add: math_acos_def abs_le_iff minus_le_iff)






subsection \<open>The range check and the branch \<open>alpha = \<pi>\<close>\<close>

lemma get_decomposition_angles_of_branch:
  assumes "Axis_init axis_like = Inr ax" "- pi + ATOL < alpha" "alpha \<le> pi + ATOL"
    and "(if \<bar>alpha - pi\<bar> < ATOL
          then degenerate_branch ATOL (axis_value ax ! index_a d) (axis_value ax ! index_b d)
          else general_branch ATOL alpha (axis_value ax ! index_a d) (axis_value ax ! index_b d))
         = Inr (p, theta2, m)"
  shows "get_decomposition_angles ATOL d alpha axis_like
     = Inr ((p + m) / 2, theta2, p - (p + m) / 2)"
  unfolding get_decomposition_angles_def assms(1) sum.case assms(4)
  using assms(2,3) by (simp add: Let_def)




lemma get_decomposition_angles_invalid_axis:
  assumes "length v \<noteq> 3"
  shows "get_decomposition_angles ATOL d alpha (ArrayLike v) = Inl InvalidAxis"
  unfolding get_decomposition_angles_def using assms by (simp add: Axis_init_def)





lemma get_decomposition_angles_pi:
  assumes "0 < ATOL" "ATOL \<le> 1" "Axis_init axis_like = Inr ax"
    and "degenerate_branch ATOL (axis_value ax ! index_a d) (axis_value ax ! index_b d)
           = Inr (p, theta2, m)"
  shows "get_decomposition_angles ATOL d pi axis_like = Inr ((p + m) / 2, theta2, p - (p + m) / 2)"
proof -
  have "- pi + ATOL < pi" "pi \<le> pi + ATOL" using assms(1,2) pi_ge_two by simp_all
  then show ?thesis
    using assms(1,3,4) by (intro get_decomposition_angles_of_branch) simp_all
qed

lemma degenerate_branch_zero:
  assumes "0 < ATOL" "\<bar>b\<bar> \<le> 1"
  shows "degenerate_branch ATOL 0 b = Inr (0, pi, 2 * arccos b)"
  using assms(1) by (simp add: degenerate_branch_def math_acos_in_domain [OF assms(2)])

lemma degenerate_branch_one:
  assumes "0 < ATOL" "ATOL \<le> 1" "a = 1 \<or> a = - 1"
  shows "degenerate_branch ATOL a b = Inr (pi, 2 * arccos a, pi)"
  using assms by (auto simp: degenerate_branch_def math_acos_def)

lemma get_decomposition_angles_degenerate_values:
  assumes "0 < ATOL" "ATOL \<le> 1" "Axis_init axis_like = Inr ax"
  shows "(axis_value ax ! index_a d = 0 \<and> \<bar>axis_value ax ! index_b d\<bar> \<le> 1 \<longrightarrow>
        get_decomposition_angles ATOL d pi axis_like
          = Inr (arccos (axis_value ax ! index_b d), pi, - arccos (axis_value ax ! index_b d))) \<and>
     (axis_value ax ! index_a d = 1 \<or> axis_value ax ! index_a d = - 1 \<longrightarrow>
        get_decomposition_angles ATOL d pi axis_like
          = Inr (pi, 2 * arccos (axis_value ax ! index_a d), 0)) \<and>
     (axis_value ax ! index_a d = 1 \<longrightarrow>
        get_decomposition_angles ATOL d pi axis_like = Inr (pi, 0, 0)) \<and>
     (axis_value ax ! index_a d = - 1 \<longrightarrow>
        get_decomposition_angles ATOL d pi axis_like = Inr (pi, 2 * pi, 0))"
proof -
  let ?a = "axis_value ax ! index_a d" and ?b = "axis_value ax ! index_b d"
  have z: "get_decomposition_angles ATOL d pi axis_like = Inr (arccos ?b, pi, - arccos ?b)"
    if "?a = 0 \<and> \<bar>?b\<bar> \<le> 1"
  proof -
    have "degenerate_branch ATOL ?a ?b = Inr (0, pi, 2 * arccos ?b)"
      using that degenerate_branch_zero [OF assms(1)] by simp
    from get_decomposition_angles_pi [OF assms this] show ?thesis by simp
  qed
  have pm: "get_decomposition_angles ATOL d pi axis_like = Inr (pi, 2 * arccos ?a, 0)"
    if "?a = 1 \<or> ?a = - 1"
  proof -
    have "degenerate_branch ATOL ?a ?b = Inr (pi, 2 * arccos ?a, pi)"
      using that by (rule degenerate_branch_one [OF assms(1,2)])
    from get_decomposition_angles_pi [OF assms this] show ?thesis by simp
  qed
  have one: "get_decomposition_angles ATOL d pi axis_like = Inr (pi, 0, 0)" if "?a = 1"
    using pm that by simp
  have minus_one: "get_decomposition_angles ATOL d pi axis_like = Inr (pi, 2 * pi, 0)" if "?a = - 1"
    using pm that by simp
  show ?thesis using z pm one minus_one by blast
qed

text \<open>
  Claim C6 fails on the code: at \<open>alpha = \<pi>\<close> the function can raise. The other
  branch clamps both arguments of \<^verbatim>\<open>math.acos\<close>, with the comment "This fixes
  float approximations like 1.0000000000002 which acos doesn't like"; the branch
  \<open>alpha \<approx> \<pi>\<close> passes the quotient \<^verbatim>\<open>axis[index_b] / math.sqrt(1 - axis[index_a] ** 2)\<close>
  unclamped. For the axis \<open>(8, 1, 0)\<close> the norm \<open>sqrt 65\<close> rounds to
  \<open>4538647623875280 / 2\<^sup>4\<^sup>9\<close>, the stored components are
  \<open>8937644551631322 / 2\<^sup>5\<^sup>3\<close> and \<open>8937644551631322 / 2\<^sup>5\<^sup>6\<close>, the quotient is
  computed as \<open>1 + 25 / 2\<^sup>5\<^sup>2\<close>, and the X-Y-X decomposer raises the domain error
  of \<^verbatim>\<open>math.acos\<close>. (The values that the claim gives for \<open>axis[index_a] = 0\<close> and
  \<open>axis[index_a]\<close> equal to \<open>1\<close> or \<open>-1\<close> are returned, without raising.)
\<close>

theorem get_decomposition_angles_degenerate_raises:
  "float64_round (sqrt 65) = 4538647623875280 / 2 ^ 49 \<and>
   float64_round (8 / (4538647623875280 / 2 ^ 49)) = 8937644551631322 / 2 ^ 53 \<and>
   float64_round (1 / (4538647623875280 / 2 ^ 49)) = 8937644551631322 / 2 ^ 56 \<and>
   get_decomposition_angles (1 / 10 ^ 8) XYXDecomposer pi
     (AxisObj \<lparr>axis_value = [8937644551631322 / 2 ^ 53, 8937644551631322 / 2 ^ 56, 0]\<rparr>)
   = Inl MathDomainError"
  using norm_8_1_0 component_a component_b get_decomposition_angles_8_1_0
  by (intro conjI)

subsection \<open>Rotations by a negligible angle\<close>

lemma normalize_angle_id:
  assumes "- pi < x" "x \<le> pi"
  shows "normalize_angle x = x"
proof -
  have "\<lceil>(x - pi) / (2 * pi)\<rceil> = 0"
  proof (rule ceiling_unique)
    show "of_int 0 - 1 < (x - pi) / (2 * pi)"
      using assms(1) by (simp add: pos_less_divide_eq)
    show "(x - pi) / (2 * pi) \<le> of_int 0"
      using assms(2) by (simp add: pos_divide_le_eq)
  qed
  then show ?thesis by (simp add: normalize_angle_def)
qed

lemma arctan_scaled_tan_bound:
  assumes "\<bar>a\<bar> \<le> 1" "\<bar>h\<bar> < pi / 2"
  shows "\<bar>arctan (a * sin h / cos h)\<bar> \<le> \<bar>h\<bar>"
proof -
  have c: "0 < cos h" using assms(2) by (simp add: cos_gt_zero_pi abs_less_iff)
  have t: "a * sin h / cos h = a * tan h" by (simp add: tan_def)
  have "\<bar>a * tan h\<bar> \<le> \<bar>tan h\<bar>"
    using assms(1) by (simp add: abs_mult mult_left_le_one_le)
  then have le: "a * tan h \<le> \<bar>tan h\<bar>" "- \<bar>tan h\<bar> \<le> a * tan h"
    by (simp_all add: abs_le_iff minus_le_iff)
  have at: "arctan \<bar>tan h\<bar> = \<bar>h\<bar>"
  proof (cases "0 \<le> h")
    case True
    then have "0 \<le> tan h" using assms(2) c by (simp add: tan_def abs_less_iff sin_ge_zero)
    then show ?thesis using True assms(2) by (simp add: arctan_tan abs_less_iff)
  next
    case False
    then have "sin h \<le> 0" using assms(2) sin_ge_zero [of "- h"] by (simp add: abs_less_iff)
    then have "tan h \<le> 0" using c by (simp add: tan_def divide_nonpos_pos)
    then have "\<bar>tan h\<bar> = tan (- h)" by simp
    moreover have "arctan (tan (- h)) = - h"
      using assms(2) False by (intro arctan_tan) (simp_all add: abs_less_iff)
    ultimately show ?thesis using False by simp
  qed
  have "arctan (a * tan h) \<le> \<bar>h\<bar>"
    using le(1) at arctan_le_iff [of "a * tan h" "\<bar>tan h\<bar>"] by simp
  moreover have "- \<bar>h\<bar> \<le> arctan (a * tan h)"
    using le(2) at arctan_le_iff [of "- \<bar>tan h\<bar>" "a * tan h"] by (simp add: arctan_minus)
  ultimately show ?thesis unfolding t by (simp add: abs_le_iff minus_le_iff)
qed

lemma arccos_clamped_bound:
  assumes "\<bar>h\<bar> < pi / 2" "1 \<le> s"
  shows "0 \<le> arccos (max (min (cos h * s) 1) (- 1)) \<and>
         arccos (max (min (cos h * s) 1) (- 1)) \<le> \<bar>h\<bar>"
proof -
  let ?y = "max (min (cos h * s) 1) (- 1)"
  have c: "0 < cos h" using assms(1) by (simp add: cos_gt_zero_pi abs_less_iff)
  have "cos h \<le> cos h * s" using c assms(2) by simp
  then have lo: "cos h \<le> ?y" using cos_le_one [of h] by (simp add: max_def min_def)
  have hi: "?y \<le> 1" by simp
  have "- 1 \<le> cos h" using c by linarith
  then have "arccos ?y \<le> arccos (cos h)"
    using lo hi by (rule arccos_le_arccos)
  moreover have "arccos (cos h) = \<bar>h\<bar>"
  proof (cases "0 \<le> h")
    case True
    then show ?thesis using assms(1) by (simp add: arccos_cos)
  next
    case False
    then show ?thesis using assms(1) by (simp add: arccos_cos2)
  qed
  moreover have "0 \<le> arccos ?y" by (rule arccos_lbound) simp_all
  ultimately show ?thesis by simp
qed

lemma general_branch_small:
  assumes "0 < ATOL" "ATOL \<le> 1" "\<bar>alpha\<bar> < ATOL" "\<bar>a\<bar> \<le> 1"
  shows "\<exists>p theta2. general_branch ATOL alpha a b = Inr (p, theta2, p) \<and>
           \<bar>p\<bar> < ATOL \<and> \<bar>theta2\<bar> < ATOL"
proof -
  let ?h = "alpha / 2"
  let ?s = "sqrt (1 + (a * tan ?h)\<^sup>2)"
  let ?t = "arccos (max (min (cos ?h * ?s) 1) (- 1))"
  let ?p = "2 * math_atan2 (a * sin ?h) (cos ?h)"
  let ?theta2 = "math_copysign (2 * ?t) alpha"
  have h: "\<bar>?h\<bar> < pi / 2" using assms(2,3) pi_ge_two by simp
  have c: "0 < cos ?h" using h by (simp add: cos_gt_zero_pi abs_less_iff)
  have s1: "1 \<le> ?s" by simp
  have s: "math_sqrt (1 + (a * tan ?h)\<^sup>2) = Inr ?s"
    by (rule math_sqrt_nonneg) simp
  have t: "0 \<le> ?t \<and> ?t \<le> \<bar>?h\<bar>" using h s1 by (rule arccos_clamped_bound)
  have "math_atan2 (a * sin ?h) (cos ?h) = arctan (a * sin ?h / cos ?h)"
    using c by (simp add: math_atan2_def)
  then have "\<bar>?p\<bar> \<le> 2 * \<bar>?h\<bar>"
    using arctan_scaled_tan_bound [OF assms(4) h] by simp
  then have p: "\<bar>?p\<bar> < ATOL" using assms(3) by simp
  have th: "\<bar>?theta2\<bar> = 2 * ?t" using t by (simp add: math_copysign_def)
  then have theta2: "\<bar>?theta2\<bar> < ATOL" using t assms(3) by simp
  have "\<bar>sin (?theta2 / 2)\<bar> \<le> \<bar>?theta2 / 2\<bar>" by (rule abs_sin_x_le_abs_x)
  then have small: "\<bar>sin (?theta2 / 2)\<bar> < ATOL" using theta2 assms(1) by simp
  have "general_branch ATOL alpha a b = Inr (?p, ?theta2, ?p)"
    unfolding general_branch_def Let_def s sum.case math_acos_clamped
    using small by simp
  with p theta2 show ?thesis by blast
qed

lemma get_decomposition_angles_small:
  assumes "0 < ATOL" "ATOL \<le> 1" "\<bar>alpha\<bar> < ATOL"
    and "length (axis_value ax) = 3" "linalg_norm (axis_value ax) = 1"
  shows "\<exists>p theta2. get_decomposition_angles ATOL d alpha (AxisObj ax) = Inr (p, theta2, 0) \<and>
           \<bar>p\<bar> < ATOL \<and> \<bar>theta2\<bar> < ATOL"
proof -
  let ?a = "axis_value ax ! index_a d" and ?b = "axis_value ax ! index_b d"
  have "?a\<^sup>2 + ?b\<^sup>2 \<le> 1" using assms(4,5) by (rule decomposer_components)
  then have "\<bar>?a\<bar> \<le> 1" using square_le_1_abs [of ?a ?b] by (simp add: abs_le_iff minus_le_iff)
  then obtain p theta2 where g: "general_branch ATOL alpha ?a ?b = Inr (p, theta2, p)"
    and b: "\<bar>p\<bar> < ATOL" "\<bar>theta2\<bar> < ATOL"
    using general_branch_small [OF assms(1,2,3)] by blast
  have ax: "Axis_init (AxisObj ax) = Inr ax" by (simp add: Axis_init_def)
  have "\<not> \<bar>alpha - pi\<bar> < ATOL" "- pi + ATOL < alpha" "alpha \<le> pi + ATOL"
    using assms(1,2,3) pi_ge_two by (simp_all add: abs_less_iff)
  then have "get_decomposition_angles ATOL d alpha (AxisObj ax) = Inr (p, theta2, 0)"
    unfolding get_decomposition_angles_def ax sum.case
    by (simp add: g Let_def)
  with b show ?thesis by blast
qed

lemma rotation_is_identity:
  assumes "0 < ATOL" "ATOL \<le> 1" "\<bar>theta\<bar> < ATOL"
  shows "is_identity ATOL (rotation g q theta)"
proof -
  have "- pi < theta" "theta \<le> pi" using assms pi_ge_two by (simp_all add: abs_less_iff)
  then have "normalize_angle theta = theta" by (rule normalize_angle_id)
  moreover have "normalize_angle 0 = 0" by (rule normalize_angle_id) simp_all
  ultimately show ?thesis using assms by (simp add: is_identity_def rotation_def)
qed

text \<open>
  Claim C8. With \<open>0 < ATOL \<le> 1\<close>, every ABA decomposer maps a rotation (about
  a unit axis) whose angle and phase are within \<open>ATOL\<close> of \<open>0\<close> to the empty
  list, and maps a gate that is not a \<^verbatim>\<open>BlochSphereRotation\<close> to the list of
  that gate alone.
\<close>

theorem decompose_identity_and_other_gates:
  "(0 < ATOL \<and> ATOL \<le> 1 \<and> length (axis_value (axis g)) = 3 \<and>
    linalg_norm (axis_value (axis g)) = 1 \<and> \<bar>angle g\<bar> < ATOL \<and> \<bar>phase g\<bar> < ATOL \<longrightarrow>
      decompose ATOL d (BlochSphereRotationG g) = Inr []) \<and>
   decompose ATOL d (MatrixGateG m) = Inr [MatrixGateG m] \<and>
   decompose ATOL d (ControlledGate c t gen args) = Inr [ControlledGate c t gen args]"
proof (intro conjI impI)
  assume a: "0 < ATOL \<and> ATOL \<le> 1 \<and> length (axis_value (axis g)) = 3 \<and>
    linalg_norm (axis_value (axis g)) = 1 \<and> \<bar>angle g\<bar> < ATOL \<and> \<bar>phase g\<bar> < ATOL"
  then obtain p theta2 where
    g: "get_decomposition_angles ATOL d (angle g) (AxisObj (axis g)) = Inr (p, theta2, 0)"
    and b: "\<bar>p\<bar> < ATOL" "\<bar>theta2\<bar> < ATOL"
    using get_decomposition_angles_small [of ATOL "angle g" "axis g" d] by blast
  have "is_identity ATOL (rotation (ra d) (qubit g) p)"
    "is_identity ATOL (rotation (rb d) (qubit g) theta2)"
    "is_identity ATOL (rotation (ra d) (qubit g) 0)"
    using a b by (simp_all add: rotation_is_identity)
  then show "decompose ATOL d (BlochSphereRotationG g) = Inr []"
    by (simp add: g filter_out_identities_def)
qed simp_all

theorem decompose_identity_and_other_gates_witness:
  "decompose (1 / 10 ^ 8) ZYZDecomposer
     (BlochSphereRotationG \<lparr>generator = None, arguments = None, qubit = Qubit 0,
        axis = \<lparr>axis_value = [1, 0, 0]\<rparr>, angle = 0, phase = 0\<rparr>) = Inr []"
  using decompose_identity_and_other_gates [where ATOL = "1 / 10 ^ 8" and d = ZYZDecomposer and
      g = "\<lparr>generator = None, arguments = None, qubit = Qubit 0,
        axis = \<lparr>axis_value = [1, 0, 0]\<rparr>, angle = 0, phase = 0\<rparr>"]
  by (simp add: linalg_norm3)

subsection \<open>The decomposition of a quarter turn about \<open>z\<close>\<close>

lemma arccos_sqrt2_half: "arccos (sqrt 2 / 2) = pi / 4"
  using arccos_cos [of "pi / 4"] by (simp add: cos_45)

lemma sqrt2_half_bounds: "- 1 \<le> sqrt 2 / 2" "sqrt 2 / 2 \<le> 1" "1 / 2 \<le> sqrt 2 / 2"
proof -
  have lo: "1 \<le> sqrt 2" by simp
  have hi: "sqrt 2 \<le> 2" using real_sqrt_le_iff [of 2 4] by simp
  show "- 1 \<le> sqrt 2 / 2" using lo by linarith
  show "sqrt 2 / 2 \<le> 1" using hi by linarith
  show "1 / 2 \<le> sqrt 2 / 2" using lo by linarith
qed

lemma clamp_sqrt2_half: "min (sqrt 2 / 2) 1 = sqrt 2 / 2" "max (sqrt 2 / 2) (- 1) = sqrt 2 / 2"
  using sqrt2_half_bounds(1,2) by (simp_all only: min_absorb1 max_absorb1)

lemma math_acos_sqrt2_half: "math_acos (sqrt 2 / 2) = Inr (pi / 4)"
  using sqrt2_half_bounds(1,2) by (simp only: math_acos_def arccos_sqrt2_half simp_thms if_True)

lemma general_branch_quarter_turn:
  assumes "ATOL \<le> 1 / 2"
  shows "general_branch ATOL (pi / 2) 0 0 = Inr (0, pi / 2, pi)"
proof -
  have h: "pi / 2 / 2 = pi / 4" by simp
  have s: "math_sqrt (1 + (0 * tan (pi / 4))\<^sup>2) = Inr 1" by (simp add: math_sqrt_def)
  have y: "max (min (cos (pi / 4) * 1) 1) (- 1) = sqrt 2 / 2"
    by (simp only: cos_45 mult_1_right clamp_sqrt2_half)
  have c: "math_copysign (2 * (pi / 4)) (pi / 2) = pi / 2" by (simp add: math_copysign_def)
  have sn: "sin (pi / 2 / 2) = sqrt 2 / 2" by (simp only: h sin_45)
  have "0 \<le> sqrt 2 / 2" by simp
  then have "\<bar>sqrt 2 / 2\<bar> = sqrt 2 / 2" by (rule abs_of_nonneg)
  then have ns: "\<not> \<bar>sqrt 2 / 2\<bar> < ATOL" using sqrt2_half_bounds(3) assms by linarith
  have d: "float_div (0 * (sqrt 2 / 2)) (sqrt 2 / 2) = Inr 0" by (simp add: float_div_def)
  have z: "math_acos (max (min 0 1) (- 1)) = Inr (pi / 2)" by (simp add: math_acos_def)
  have p: "2 * math_atan2 (0 * (sqrt 2 / 2)) (cos (pi / 4)) = 0"
    by (simp add: math_atan2_def cos_45)
  show ?thesis
    unfolding general_branch_def Let_def h s sum.case y math_acos_sqrt2_half c sn
    by (simp only: ns if_False d sum.case z sin_45 p) simp
qed

lemma Axis_init_unit_z: "Axis_init (ArrayLike [0, 0, 1]) = Inr \<lparr>axis_value = [0, 0, 1]\<rparr>"
  by (simp add: Axis_init_def normalize_axis_def linalg_norm3)

lemma Axis_init_minus_z:
  "Axis_init (ArrayLike [0, 0, - 1]) = Inr \<lparr>axis_value = [0, 0, - 1]\<rparr>"
  by (simp add: Axis_init_def normalize_axis_def linalg_norm3)

lemma XYX_quarter_turn:
  assumes "0 < ATOL" "ATOL \<le> 1 / 2" "Axis_init axis_like = Inr \<lparr>axis_value = [0, 0, z]\<rparr>"
  shows "get_decomposition_angles ATOL XYXDecomposer (pi / 2) axis_like
     = Inr (pi / 2, pi / 2, - pi / 2)"
proof -
  have r: "- pi + ATOL < pi / 2" "pi / 2 \<le> pi + ATOL" "\<not> \<bar>pi / 2 - pi\<bar> < ATOL"
    using pi_ge_two assms(1,2) by (simp_all add: abs_if)
  have i: "axis_value \<lparr>axis_value = [0, 0, z]\<rparr> ! index_a XYXDecomposer = 0"
    "axis_value \<lparr>axis_value = [0, 0, z]\<rparr> ! index_b XYXDecomposer = 0"
    by (simp_all add: index_a_def index_b_def)
  show ?thesis
    unfolding get_decomposition_angles_def assms(3) sum.case i
      general_branch_quarter_turn [OF assms(2)]
    using r by (simp add: Let_def)
qed

lemma rotation_matrix_quarter:
  "rotation_matrix [x, y, z] (pi / 2) 0 =
     (Complex (sqrt 2 / 2) (- z * (sqrt 2 / 2)), Complex (- y * (sqrt 2 / 2)) (- x * (sqrt 2 / 2)),
      Complex (y * (sqrt 2 / 2)) (- x * (sqrt 2 / 2)), Complex (sqrt 2 / 2) (z * (sqrt 2 / 2)))"
proof -
  have h: "pi / 2 / 2 = pi / 4" by simp
  show ?thesis
    unfolding rotation_matrix_def Let_def h cos_45 sin_45 by simp
qed

lemma rotation_matrix_minus_quarter:
  "rotation_matrix [x, y, z] (- pi / 2) 0 =
     (Complex (sqrt 2 / 2) (z * (sqrt 2 / 2)), Complex (y * (sqrt 2 / 2)) (x * (sqrt 2 / 2)),
      Complex (- y * (sqrt 2 / 2)) (x * (sqrt 2 / 2)), Complex (sqrt 2 / 2) (- z * (sqrt 2 / 2)))"
proof -
  have h: "- pi / 2 / 2 = - (pi / 4)" by simp
  show ?thesis
    unfolding rotation_matrix_def Let_def h cos_minus sin_minus cos_45 sin_45 by simp
qed

lemma half_turn_product:
  fixes r :: real
  assumes "r * r = 1 / 2"
  shows "matrix2_mult (Complex r 0, Complex 0 r, Complex 0 r, Complex r 0)
     (matrix2_mult (Complex r 0, Complex (- r) 0, Complex r 0, Complex r 0)
        (Complex r 0, Complex 0 (- r), Complex 0 (- r), Complex r 0))
   = (Complex r r, 0, 0, Complex r (- r))"
proof -
  have "r * r * r = r / 2" using assms by simp
  then have c: "r * (r * r) = r / 2" by (simp add: mult.assoc)
  show ?thesis
    by (simp add: complex_eq_iff c assms)
qed

lemma sqrt2_half_square: "sqrt 2 / 2 * (sqrt 2 / 2) = 1 / 2"
  by simp

lemma XYX_product:
  "matrix2_mult (rotation_matrix [1, 0, 0] (- pi / 2) 0)
     (matrix2_mult (rotation_matrix [0, 1, 0] (pi / 2) 0) (rotation_matrix [1, 0, 0] (pi / 2) 0))
   = rotation_matrix [0, 0, - 1] (pi / 2) 0"
proof -
  have z: "Complex 0 0 = 0" by (simp add: complex_eq_iff)
  show ?thesis
    unfolding rotation_matrix_quarter rotation_matrix_minus_quarter
    using half_turn_product [OF sqrt2_half_square] by (simp add: z)
qed

lemma quarter_turns_not_equivalent:
  "\<not> equivalent_up_to_global_phase (rotation_matrix [0, 0, - 1] (pi / 2) 0)
       (rotation_matrix [0, 0, 1] (pi / 2) 0)"
proof
  let ?r = "sqrt 2 / 2"
  have m1: "rotation_matrix [0, 0, - 1] (pi / 2) 0
      = (Complex ?r ?r, Complex 0 0, Complex 0 0, Complex ?r (- ?r))"
    unfolding rotation_matrix_quarter by simp
  have m2: "rotation_matrix [0, 0, 1] (pi / 2) 0
      = (Complex ?r (- ?r), Complex 0 0, Complex 0 0, Complex ?r ?r)"
    unfolding rotation_matrix_quarter by simp
  assume "equivalent_up_to_global_phase (rotation_matrix [0, 0, - 1] (pi / 2) 0)
       (rotation_matrix [0, 0, 1] (pi / 2) 0)"
  then obtain theta where
    "rotation_matrix [0, 0, - 1] (pi / 2) 0
       = matrix2_scale (cis theta) (rotation_matrix [0, 0, 1] (pi / 2) 0)"
    unfolding equivalent_up_to_global_phase_def by blast
  then have e: "Complex ?r ?r = cis theta * Complex ?r (- ?r)"
    "Complex ?r (- ?r) = cis theta * Complex ?r ?r"
    unfolding m1 m2 matrix2_scale.simps prod.inject by blast+
  have "Re (Complex ?r ?r) = Re (cis theta * Complex ?r (- ?r))"
    using e(1) by (rule arg_cong)
  then have a: "?r = cos theta * ?r + sin theta * ?r" by simp
  have "Im (Complex ?r (- ?r)) = Im (cis theta * Complex ?r ?r)"
    using e(2) by (rule arg_cong)
  then have b: "- ?r = cos theta * ?r + sin theta * ?r" by (simp add: add.commute)
  have "?r = - ?r" using a b by (rule trans [OF _ sym])
  then have "?r = 0" by linarith
  then show False by simp
qed

lemma get_decomposition_angles_reads_two_components:
  assumes "Axis_init u = Inr a" "Axis_init v = Inr b"
    and "axis_value a ! index_a d = axis_value b ! index_a d"
    and "axis_value a ! index_b d = axis_value b ! index_b d"
  shows "get_decomposition_angles ATOL d alpha u = get_decomposition_angles ATOL d alpha v"
  unfolding get_decomposition_angles_def using assms by simp

text \<open>
  Claim C1 fails on the code. The docstring of \<^verbatim>\<open>get_decomposition_angles\<close>
  promises angles with \<open>U = Ra(theta3) Rb(theta2) Ra(theta1)\<close>, but the function
  reads only the components \<open>index_a\<close> and \<open>index_b\<close> of the axis and never the
  sign of the third one. For the X-Y-X decomposer and a quarter turn it returns
  \<open>(\<pi>/2, \<pi>/2, -\<pi>/2)\<close> for the axis \<open>z\<close> and for the axis \<open>-z\<close> alike; the
  product \<open>Rx(-\<pi>/2) Ry(\<pi>/2) Rx(\<pi>/2)\<close> is the quarter turn about \<open>-z\<close>, which is
  not the quarter turn about \<open>z\<close>, neither up to a global phase nor under
  \<^verbatim>\<open>BlochSphereRotation.__eq__\<close>.
\<close>

theorem XYX_round_trip_fails:
  "get_decomposition_angles (1 / 10 ^ 8) XYXDecomposer (pi / 2) (ArrayLike [0, 0, 1])
     = Inr (pi / 2, pi / 2, - pi / 2) \<and>
   get_decomposition_angles (1 / 10 ^ 8) XYXDecomposer (pi / 2) (ArrayLike [0, 0, - 1])
     = Inr (pi / 2, pi / 2, - pi / 2) \<and>
   matrix2_mult (rotation_matrix [1, 0, 0] (- pi / 2) 0)
     (matrix2_mult (rotation_matrix [0, 1, 0] (pi / 2) 0) (rotation_matrix [1, 0, 0] (pi / 2) 0))
     = rotation_matrix [0, 0, - 1] (pi / 2) 0 \<and>
   \<not> equivalent_up_to_global_phase (rotation_matrix [0, 0, - 1] (pi / 2) 0)
       (rotation_matrix [0, 0, 1] (pi / 2) 0) \<and>
   \<not> BlochSphereRotation_eq (1 / 10 ^ 8)
       \<lparr>generator = None, arguments = None, qubit = Qubit 0,
        axis = \<lparr>axis_value = [0, 0, - 1]\<rparr>, angle = pi / 2, phase = 0\<rparr>
       \<lparr>generator = None, arguments = None, qubit = Qubit 0,
        axis = \<lparr>axis_value = [0, 0, 1]\<rparr>, angle = pi / 2, phase = 0\<rparr>"
proof (intro conjI)
  have a: "(0::real) < 1 / 10 ^ 8" "(1::real) / 10 ^ 8 \<le> 1 / 2" by simp_all
  show "get_decomposition_angles (1 / 10 ^ 8) XYXDecomposer (pi / 2) (ArrayLike [0, 0, 1])
     = Inr (pi / 2, pi / 2, - pi / 2)"
    using a Axis_init_unit_z by (rule XYX_quarter_turn)
  show "get_decomposition_angles (1 / 10 ^ 8) XYXDecomposer (pi / 2) (ArrayLike [0, 0, - 1])
     = Inr (pi / 2, pi / 2, - pi / 2)"
    using a Axis_init_minus_z by (rule XYX_quarter_turn)
  show "matrix2_mult (rotation_matrix [1, 0, 0] (- pi / 2) 0)
     (matrix2_mult (rotation_matrix [0, 1, 0] (pi / 2) 0) (rotation_matrix [1, 0, 0] (pi / 2) 0))
     = rotation_matrix [0, 0, - 1] (pi / 2) 0"
    by (rule XYX_product)
  show "\<not> equivalent_up_to_global_phase (rotation_matrix [0, 0, - 1] (pi / 2) 0)
       (rotation_matrix [0, 0, 1] (pi / 2) 0)"
    by (rule quarter_turns_not_equivalent)
  have "\<not> pi < 1 / 10 ^ 8" using pi_ge_two by simp
  then show "\<not> BlochSphereRotation_eq (1 / 10 ^ 8)
       \<lparr>generator = None, arguments = None, qubit = Qubit 0,
        axis = \<lparr>axis_value = [0, 0, - 1]\<rparr>, angle = pi / 2, phase = 0\<rparr>
       \<lparr>generator = None, arguments = None, qubit = Qubit 0,
        axis = \<lparr>axis_value = [0, 0, 1]\<rparr>, angle = pi / 2, phase = 0\<rparr>"
    by (simp add: BlochSphereRotation_eq_def allclose_def default_rtol_def default_atol_def)
qed

subsection \<open>The default measurements\<close>

lemma Measure_call_qubits:
  "Measure_call args ((''qubits'', v) # kwargs) = Inl PyTypeError"
  by (simp add: Measure_call_def bind_arguments_def Measure_params_def drop_Cons' )

lemma Measure_call_qubit:
  "Measure_call []
     [(''qubit'', PyExpr (QubitE q)), (''bit'', PyExpr (BitE b)),
      (''axis'', PyTuple [PyInt 0, PyInt 0, PyInt 1])]
   = Inr \<lparr>m_generator = None, m_arguments = None, m_qubit = q, m_bit = b,
          m_axis = \<lparr>axis_value = [0, 0, 1]\<rparr>\<rparr>"
  by (simp add: Measure_call_def bind_arguments_def Measure_params_def Measure_init_def
      Axis_init_def normalize_axis_def linalg_norm3)

lemma measure_function_raises: "measure_function vs = Inl PyTypeError"
  by (cases vs rule: measure_function.cases) (simp_all add: Measure_call_qubits)

lemma measure_z_function_raises: "measure_z_function vs = Inl PyTypeError"
  by (cases vs rule: measure_z_function.cases) (simp_all add: Measure_call_qubits)

lemma named_measurement_raises:
  assumes "\<And>vs. gen_body f vs = Inl PyTypeError"
  shows "named_measurement f args kwargs \<noteq> Inr m"
  using assms by (simp add: named_measurement_def call_generator_def split: sum.splits)

text \<open>
  Claim C10. For every qubit \<open>q\<close> and bit \<open>b\<close> the calls \<^verbatim>\<open>measure(q, b)\<close> and
  \<^verbatim>\<open>measure_z(q, b)\<close> raise \<^verbatim>\<open>TypeError\<close>: each passes the keyword
  \<^verbatim>\<open>qubits\<close> to \<^verbatim>\<open>Measure\<close>, whose parameters are \<^verbatim>\<open>qubit\<close>, \<^verbatim>\<open>bit\<close>,
  \<^verbatim>\<open>axis\<close>, \<^verbatim>\<open>generator\<close> and \<^verbatim>\<open>arguments\<close>. No call of either generator,
  however its arguments are passed, yields a \<^verbatim>\<open>Measure\<close>.
\<close>

theorem default_measurements_raise:
  "measure [QubitE q, BitE b] [] = Inl PyTypeError \<and>
   measure_z [QubitE q, BitE b] [] = Inl PyTypeError \<and>
   (\<forall>args kwargs m. measure args kwargs \<noteq> Inr m) \<and>
   (\<forall>args kwargs m. measure_z args kwargs \<noteq> Inr m) \<and>
   map fst Measure_params = [''qubit'', ''bit'', ''axis'', ''generator'', ''arguments'']"
proof (intro conjI allI)
  show "measure [QubitE q, BitE b] [] = Inl PyTypeError"
    by (simp add: measure_def named_measurement_def call_generator_def bind_arguments_def
        Measure_call_qubits)
  show "measure_z [QubitE q, BitE b] [] = Inl PyTypeError"
    by (simp add: measure_z_def named_measurement_def call_generator_def bind_arguments_def
        Measure_call_qubits)
  show "measure args kwargs \<noteq> Inr m" for args kwargs m
    unfolding measure_def by (rule named_measurement_raises) (simp add: measure_function_raises)
  show "measure_z args kwargs \<noteq> Inr m" for args kwargs m
    unfolding measure_z_def by (rule named_measurement_raises) (simp add: measure_z_function_raises)
  show "map fst Measure_params = [''qubit'', ''bit'', ''axis'', ''generator'', ''arguments'']"
    by (simp add: Measure_params_def)
qed

subsection \<open>The arguments recorded by a wrapper\<close>

lemma collect_all_args_positional:
  assumes "\<forall>n \<in> set names. map_of kwargs n = None" "i + length names \<le> length args"
  shows "collect_all_args (names @ rest) args kwargs acc i
     = collect_all_args rest args kwargs (acc @ take (length names) (drop i args)) (i + length names)"
  using assms
proof (induction names arbitrary: acc i)
  case Nil
  then show ?case by simp
next
  case (Cons n names)
  then have i: "i < length args" by simp
  have "take (Suc (length names)) (drop i args) = args ! i # take (length names) (drop (Suc i) args)"
    using i by (simp add: Cons_nth_drop_Suc [symmetric])
  then show ?case using Cons i by simp
qed

lemma collect_all_args_keywords:
  assumes "collect_all_args names args kwargs acc (length args) = Inr r"
  shows "r = acc @ map (\<lambda>n. the (map_of kwargs n)) names \<and>
         (\<forall>n \<in> set names. map_of kwargs n \<noteq> None)"
  using assms
proof (induction names arbitrary: acc)
  case Nil
  then show ?case by simp
next
  case (Cons n names)
  show ?case
  proof (cases "map_of kwargs n")
    case None
    with Cons.prems show ?thesis by simp
  next
    case (Some v)
    with Cons.prems have "collect_all_args names args kwargs (acc @ [v]) (length args) = Inr r"
      by simp
    from Cons.IH [OF this] Some show ?thesis by simp
  qed
qed

lemma bind_keywords_all_given:
  assumes "\<forall>p \<in> set params. map_of kwargs (fst p) \<noteq> None"
  shows "bind_keywords params kwargs = Inr (map (\<lambda>p. the (map_of kwargs (fst p))) params)"
  using assms by (induction params) auto

lemma bind_keywords_length:
  "bind_keywords params kwargs = Inr vs \<Longrightarrow> length vs = length params"
  by (induction params arbitrary: vs) (auto split: option.splits sum.splits)

lemma bind_arguments_positional:
  assumes "length vs = length params"
  shows "bind_arguments params vs [] = Inr vs"
  using assms by (simp add: bind_arguments_def)

lemma collect_all_args_positional_only:
  assumes "length vs = length names"
  shows "collect_all_args names vs [] [] 0 = Inr vs"
  using collect_all_args_positional [of names "[]" 0 vs "[]" "[]"] assms by simp

lemma keyword_not_positional:
  assumes "distinct (map fst params)"
    and "\<not> (\<exists>k \<in> set (map fst kwargs). k \<notin> set (map fst (drop j params)))"
    and "n \<in> set (map fst (take j params))"
  shows "map_of kwargs n = None"
proof (rule ccontr)
  assume "map_of kwargs n \<noteq> None"
  then obtain v where "map_of kwargs n = Some v" by blast
  then have "(n, v) \<in> set kwargs" by (rule map_of_SomeD)
  then have "n \<in> set (map fst kwargs)" by force
  then have "n \<in> set (map fst (drop j params))" using assms(2) by blast
  moreover have "distinct (map fst (take j params) @ map fst (drop j params))"
    using assms(1) by (simp add: map_append [symmetric] del: map_append)
  ultimately show False using assms(3) by auto
qed

lemma recorded_arguments:
  assumes d: "distinct (map fst params)"
    and b: "bind_arguments params args kwargs = Inr vs"
    and c: "collect_all_args (map fst params) args kwargs [] 0 = Inr all_args"
  shows "all_args = vs" and "length vs = length params"
    and "\<forall>i < length params.
           vs ! i = (case map_of kwargs (fst (params ! i)) of Some v \<Rightarrow> v | None \<Rightarrow> args ! i)"
proof -
  let ?k = "length args"
  let ?names1 = "map fst (take ?k params)" and ?rest = "drop ?k params"
  from b have k: "?k \<le> length params"
    and keys: "\<not> (\<exists>k \<in> set (map fst kwargs). k \<notin> set (map fst ?rest))"
    by (auto simp: bind_arguments_def split: if_splits)
  from b k keys obtain ws where ws: "bind_keywords ?rest kwargs = Inr ws" and vs: "vs = args @ ws"
    by (auto simp: bind_arguments_def split: sum.splits)
  have none: "\<forall>n \<in> set ?names1. map_of kwargs n = None"
    using keyword_not_positional [OF d keys] by blast
  have split: "map fst params = ?names1 @ map fst ?rest"
    by (simp add: map_append [symmetric] del: map_append)
  have "collect_all_args (?names1 @ map fst ?rest) args kwargs [] 0
      = collect_all_args (map fst ?rest) args kwargs ([] @ take (length ?names1) (drop 0 args))
          (0 + length ?names1)"
    using none k by (intro collect_all_args_positional) simp_all
  then have "collect_all_args (map fst ?rest) args kwargs args ?k = Inr all_args"
    using c k unfolding split by (simp add: min_absorb2)
  from collect_all_args_keywords [OF this]
  have aa: "all_args = args @ map (\<lambda>n. the (map_of kwargs n)) (map fst ?rest)"
    and given: "\<forall>n \<in> set (map fst ?rest). map_of kwargs n \<noteq> None"
    by blast+
  have "bind_keywords ?rest kwargs = Inr (map (\<lambda>p. the (map_of kwargs (fst p))) ?rest)"
    using given by (intro bind_keywords_all_given) simp
  with ws have ws': "ws = map (\<lambda>p. the (map_of kwargs (fst p))) ?rest" by simp
  show "all_args = vs" using aa vs ws' by (simp add: comp_def)
  show len: "length vs = length params" using vs ws' k by simp
  show "\<forall>i < length params.
           vs ! i = (case map_of kwargs (fst (params ! i)) of Some v \<Rightarrow> v | None \<Rightarrow> args ! i)"
  proof (intro allI impI)
    fix i assume i: "i < length params"
    show "vs ! i = (case map_of kwargs (fst (params ! i)) of Some v \<Rightarrow> v | None \<Rightarrow> args ! i)"
    proof (cases "i < ?k")
      case True
      then have "fst (params ! i) \<in> set ?names1"
        using i by (auto simp: set_conv_nth intro!: exI [of _ i])
      then have "map_of kwargs (fst (params ! i)) = None" using none by blast
      then show ?thesis using True vs by (simp add: nth_append)
    next
      case False
      then have j: "i - ?k < length ?rest" using i by simp
      have p: "?rest ! (i - ?k) = params ! i" using False i by simp
      then have "fst (params ! i) \<in> set (map fst ?rest)"
        using j by (metis nth_mem image_eqI set_map)
      then obtain v where v: "map_of kwargs (fst (params ! i)) = Some v" using given by blast
      have "vs ! i = ws ! (i - ?k)" using False vs by (simp add: nth_append)
      also have "\<dots> = the (map_of kwargs (fst (?rest ! (i - ?k))))"
        unfolding ws' using j by (simp only: nth_map)
      finally show ?thesis using v p by simp
    qed
  qed
qed

lemma wrapper_round_trip:
  assumes d: "distinct (map fst (gen_params f))"
    and r: "call_generator f args kwargs = Inr result"
    and c: "collect_all_args (map fst (gen_params f)) args kwargs [] 0 = Inr all_args"
  shows "call_generator f all_args [] = Inr result"
    and "collect_all_args (map fst (gen_params f)) all_args [] [] 0 = Inr all_args"
    and "length all_args = length (gen_params f)"
    and "\<forall>i < length (gen_params f).
           all_args ! i =
             (case map_of kwargs (fst (gen_params f ! i)) of Some v \<Rightarrow> v | None \<Rightarrow> args ! i)"
proof -
  from r obtain vs where b: "bind_arguments (gen_params f) args kwargs = Inr vs"
    and body: "gen_body f vs = Inr result"
    by (auto simp: call_generator_def split: sum.splits)
  note ra = recorded_arguments [OF d b c]
  show len: "length all_args = length (gen_params f)" using ra(1,2) by simp
  have "bind_arguments (gen_params f) vs [] = Inr vs"
    using ra(2) by (rule bind_arguments_positional)
  then show "call_generator f all_args [] = Inr result"
    using body ra(1) by (simp add: call_generator_def)
  show "collect_all_args (map fst (gen_params f)) all_args [] [] 0 = Inr all_args"
    using len by (intro collect_all_args_positional_only) simp
  show "\<forall>i < length (gen_params f).
           all_args ! i =
             (case map_of kwargs (fst (gen_params f ! i)) of Some v \<Rightarrow> v | None \<Rightarrow> args ! i)"
    using ra(1,3) by simp
qed

lemma Gate_set_metadata_read:
  "Gate_arguments (Gate_set_metadata g gen args) = args"
  "Gate_generator (Gate_set_metadata g gen args) = gen"
  by (cases g; simp)+

lemma named_gate_round_trip:
  assumes "distinct (map fst (gen_params f))" "named_gate f args kwargs = Inr node"
  shows "\<exists>all_args. Gate_arguments node = Some all_args \<and>
      Gate_generator node = Some (gen_name f) \<and>
      length all_args = length (gen_params f) \<and>
      (\<forall>i < length (gen_params f).
         all_args ! i =
           (case map_of kwargs (fst (gen_params f ! i)) of Some v \<Rightarrow> v | None \<Rightarrow> args ! i)) \<and>
      named_gate f all_args [] = Inr node"
proof -
  from assms(2) obtain result all_args where r: "call_generator f args kwargs = Inr result"
    and c: "collect_all_args (map fst (gen_params f)) args kwargs [] 0 = Inr all_args"
    and n: "node = Gate_set_metadata result (Some (gen_name f)) (Some all_args)"
    by (auto simp: named_gate_def split: sum.splits)
  note w = wrapper_round_trip [OF assms(1) r c]
  have "named_gate f all_args [] = Inr node"
    by (simp add: named_gate_def w(1,2) n)
  then show ?thesis using w(3,4) by (simp add: n Gate_set_metadata_read)
qed

lemma named_measurement_round_trip:
  assumes "distinct (map fst (gen_params f))" "named_measurement f args kwargs = Inr node"
  shows "\<exists>all_args. m_arguments node = Some all_args \<and>
      m_generator node = Some (gen_name f) \<and>
      length all_args = length (gen_params f) \<and>
      (\<forall>i < length (gen_params f).
         all_args ! i =
           (case map_of kwargs (fst (gen_params f ! i)) of Some v \<Rightarrow> v | None \<Rightarrow> args ! i)) \<and>
      named_measurement f all_args [] = Inr node"
proof -
  from assms(2) obtain result all_args where r: "call_generator f args kwargs = Inr result"
    and c: "collect_all_args (map fst (gen_params f)) args kwargs [] 0 = Inr all_args"
    and n: "node = result\<lparr>m_generator := Some (gen_name f), m_arguments := Some all_args\<rparr>"
    by (auto simp: named_measurement_def split: sum.splits)
  note w = wrapper_round_trip [OF assms(1) r c]
  have "named_measurement f all_args [] = Inr node"
    by (simp add: named_measurement_def w(1,2) n)
  then show ?thesis using w(3,4) by (simp add: n)
qed

lemma named_reset_round_trip:
  assumes "distinct (map fst (gen_params f))" "named_reset f args kwargs = Inr node"
  shows "\<exists>all_args. r_arguments node = Some all_args \<and>
      r_generator node = Some (gen_name f) \<and>
      length all_args = length (gen_params f) \<and>
      (\<forall>i < length (gen_params f).
         all_args ! i =
           (case map_of kwargs (fst (gen_params f ! i)) of Some v \<Rightarrow> v | None \<Rightarrow> args ! i)) \<and>
      named_reset f all_args [] = Inr node"
proof -
  from assms(2) obtain result all_args where r: "call_generator f args kwargs = Inr result"
    and c: "collect_all_args (map fst (gen_params f)) args kwargs [] 0 = Inr all_args"
    and n: "node = result\<lparr>r_generator := Some (gen_name f), r_arguments := Some all_args\<rparr>"
    by (auto simp: named_reset_def split: sum.splits)
  note w = wrapper_round_trip [OF assms(1) r c]
  have "named_reset f all_args [] = Inr node"
    by (simp add: named_reset_def w(1,2) n)
  then show ?thesis using w(3,4) by (simp add: n)
qed

text \<open>
  Claim C7. For a generator with ordinary, distinctly named parameters, every
  node that the wrapper \<^verbatim>\<open>named_gate\<close>, \<^verbatim>\<open>named_measurement\<close> or
  \<^verbatim>\<open>named_reset\<close> returns, however the arguments were passed, records the
  generator and one argument for each declared parameter, in declared order: the
  keyword argument of that name if there is one, else the positional argument at
  that position. Calling the wrapper again with the recorded arguments, all
  positional, returns the same node.
\<close>

theorem generator_round_trip:
  "(distinct (map fst (gen_params gate_generator)) \<and>
    named_gate gate_generator args kwargs = Inr gate \<longrightarrow>
      (\<exists>all_args. Gate_arguments gate = Some all_args \<and>
         Gate_generator gate = Some (gen_name gate_generator) \<and>
         length all_args = length (gen_params gate_generator) \<and>
         (\<forall>i < length (gen_params gate_generator).
            all_args ! i =
              (case map_of kwargs (fst (gen_params gate_generator ! i)) of
                 Some v \<Rightarrow> v | None \<Rightarrow> args ! i)) \<and>
         named_gate gate_generator all_args [] = Inr gate)) \<and>
   (distinct (map fst (gen_params measurement_generator)) \<and>
    named_measurement measurement_generator margs mkwargs = Inr measurement \<longrightarrow>
      (\<exists>all_args. m_arguments measurement = Some all_args \<and>
         m_generator measurement = Some (gen_name measurement_generator) \<and>
         length all_args = length (gen_params measurement_generator) \<and>
         (\<forall>i < length (gen_params measurement_generator).
            all_args ! i =
              (case map_of mkwargs (fst (gen_params measurement_generator ! i)) of
                 Some v \<Rightarrow> v | None \<Rightarrow> margs ! i)) \<and>
         named_measurement measurement_generator all_args [] = Inr measurement)) \<and>
   (distinct (map fst (gen_params reset_generator)) \<and>
    named_reset reset_generator rargs rkwargs = Inr reset \<longrightarrow>
      (\<exists>all_args. r_arguments reset = Some all_args \<and>
         r_generator reset = Some (gen_name reset_generator) \<and>
         length all_args = length (gen_params reset_generator) \<and>
         (\<forall>i < length (gen_params reset_generator).
            all_args ! i =
              (case map_of rkwargs (fst (gen_params reset_generator ! i)) of
                 Some v \<Rightarrow> v | None \<Rightarrow> rargs ! i)) \<and>
         named_reset reset_generator all_args [] = Inr reset))"
  using named_gate_round_trip [of gate_generator args kwargs gate]
    named_measurement_round_trip [of measurement_generator margs mkwargs measurement]
    named_reset_round_trip [of reset_generator rargs rkwargs reset]
  by blast

theorem generator_round_trip_witness:
  "named_gate
     \<lparr>gen_name = ''Rx'', gen_params = [(''q'', None), (''theta'', None)],
        gen_body = (\<lambda>vs. case vs of
            [QubitE q, Float theta] \<Rightarrow> Inr (BlochSphereRotationG (rotation Rx q theta))
          | _ \<Rightarrow> Inl PyTypeError)\<rparr>
     [QubitE (Qubit 0)] [(''theta'', Float 1)]
   = Inr (BlochSphereRotationG ((rotation Rx (Qubit 0) 1)
        \<lparr>generator := Some ''Rx'', arguments := Some [QubitE (Qubit 0), Float 1]\<rparr>)) \<and>
   named_gate
     \<lparr>gen_name = ''Rx'', gen_params = [(''q'', None), (''theta'', None)],
        gen_body = (\<lambda>vs. case vs of
            [QubitE q, Float theta] \<Rightarrow> Inr (BlochSphereRotationG (rotation Rx q theta))
          | _ \<Rightarrow> Inl PyTypeError)\<rparr>
     [QubitE (Qubit 0), Float 1] []
   = Inr (BlochSphereRotationG ((rotation Rx (Qubit 0) 1)
        \<lparr>generator := Some ''Rx'', arguments := Some [QubitE (Qubit 0), Float 1]\<rparr>)) \<and>
   named_measurement
     \<lparr>gen_name = ''measure'', gen_params = [(''q'', None), (''b'', None)],
        gen_body = (\<lambda>vs. case vs of
            [QubitE q, BitE b] \<Rightarrow> Measure_init q b (AxisObj \<lparr>axis_value = [0, 0, 1]\<rparr>) None None
          | _ \<Rightarrow> Inl PyTypeError)\<rparr>
     [] [(''b'', BitE (Bit 0)), (''q'', QubitE (Qubit 1))]
   = Inr \<lparr>m_generator = Some ''measure'', m_arguments = Some [QubitE (Qubit 1), BitE (Bit 0)],
        m_qubit = Qubit 1, m_bit = Bit 0, m_axis = \<lparr>axis_value = [0, 0, 1]\<rparr>\<rparr> \<and>
   named_measurement
     \<lparr>gen_name = ''measure'', gen_params = [(''q'', None), (''b'', None)],
        gen_body = (\<lambda>vs. case vs of
            [QubitE q, BitE b] \<Rightarrow> Measure_init q b (AxisObj \<lparr>axis_value = [0, 0, 1]\<rparr>) None None
          | _ \<Rightarrow> Inl PyTypeError)\<rparr>
     [QubitE (Qubit 1), BitE (Bit 0)] []
   = Inr \<lparr>m_generator = Some ''measure'', m_arguments = Some [QubitE (Qubit 1), BitE (Bit 0)],
        m_qubit = Qubit 1, m_bit = Bit 0, m_axis = \<lparr>axis_value = [0, 0, 1]\<rparr>\<rparr> \<and>
   named_reset
     \<lparr>gen_name = ''reset'', gen_params = [(''q'', None)],
        gen_body = (\<lambda>vs. case vs of
            [QubitE q] \<Rightarrow> Inr \<lparr>r_generator = None, r_arguments = None, r_qubit = q\<rparr>
          | _ \<Rightarrow> Inl PyTypeError)\<rparr>
     [] [(''q'', QubitE (Qubit 2))]
   = Inr \<lparr>r_generator = Some ''reset'', r_arguments = Some [QubitE (Qubit 2)], r_qubit = Qubit 2\<rparr> \<and>
   named_reset
     \<lparr>gen_name = ''reset'', gen_params = [(''q'', None)],
        gen_body = (\<lambda>vs. case vs of
            [QubitE q] \<Rightarrow> Inr \<lparr>r_generator = None, r_arguments = None, r_qubit = q\<rparr>
          | _ \<Rightarrow> Inl PyTypeError)\<rparr>
     [QubitE (Qubit 2)] []
   = Inr \<lparr>r_generator = Some ''reset'', r_arguments = Some [QubitE (Qubit 2)], r_qubit = Qubit 2\<rparr>"
proof -
  have g: "named_gate
     \<lparr>gen_name = ''Rx'', gen_params = [(''q'', None), (''theta'', None)],
        gen_body = (\<lambda>vs. case vs of
            [QubitE q, Float theta] \<Rightarrow> Inr (BlochSphereRotationG (rotation Rx q theta))
          | _ \<Rightarrow> Inl PyTypeError)\<rparr>
     [QubitE (Qubit 0)] [(''theta'', Float 1)]
   = Inr (BlochSphereRotationG ((rotation Rx (Qubit 0) 1)
        \<lparr>generator := Some ''Rx'', arguments := Some [QubitE (Qubit 0), Float 1]\<rparr>))"
    by (simp add: named_gate_def call_generator_def bind_arguments_def)
  have m: "named_measurement
     \<lparr>gen_name = ''measure'', gen_params = [(''q'', None), (''b'', None)],
        gen_body = (\<lambda>vs. case vs of
            [QubitE q, BitE b] \<Rightarrow> Measure_init q b (AxisObj \<lparr>axis_value = [0, 0, 1]\<rparr>) None None
          | _ \<Rightarrow> Inl PyTypeError)\<rparr>
     [] [(''b'', BitE (Bit 0)), (''q'', QubitE (Qubit 1))]
   = Inr \<lparr>m_generator = Some ''measure'', m_arguments = Some [QubitE (Qubit 1), BitE (Bit 0)],
        m_qubit = Qubit 1, m_bit = Bit 0, m_axis = \<lparr>axis_value = [0, 0, 1]\<rparr>\<rparr>"
    by (simp add: named_measurement_def call_generator_def bind_arguments_def Measure_init_def
        Axis_init_def)
  have r: "named_reset
     \<lparr>gen_name = ''reset'', gen_params = [(''q'', None)],
        gen_body = (\<lambda>vs. case vs of
            [QubitE q] \<Rightarrow> Inr \<lparr>r_generator = None, r_arguments = None, r_qubit = q\<rparr>
          | _ \<Rightarrow> Inl PyTypeError)\<rparr>
     [] [(''q'', QubitE (Qubit 2))]
   = Inr \<lparr>r_generator = Some ''reset'', r_arguments = Some [QubitE (Qubit 2)], r_qubit = Qubit 2\<rparr>"
    by (simp add: named_reset_def call_generator_def bind_arguments_def)
  show ?thesis
    using generator_round_trip [where
        gate_generator = "\<lparr>gen_name = ''Rx'', gen_params = [(''q'', None), (''theta'', None)],
        gen_body = (\<lambda>vs. case vs of
            [QubitE q, Float theta] \<Rightarrow> Inr (BlochSphereRotationG (rotation Rx q theta))
          | _ \<Rightarrow> Inl PyTypeError)\<rparr>" and
        args = "[QubitE (Qubit 0)]" and kwargs = "[(''theta'', Float 1)]" and
        gate = "BlochSphereRotationG ((rotation Rx (Qubit 0) 1)
        \<lparr>generator := Some ''Rx'', arguments := Some [QubitE (Qubit 0), Float 1]\<rparr>)" and
        measurement_generator = "\<lparr>gen_name = ''measure'', gen_params = [(''q'', None), (''b'', None)],
        gen_body = (\<lambda>vs. case vs of
            [QubitE q, BitE b] \<Rightarrow> Measure_init q b (AxisObj \<lparr>axis_value = [0, 0, 1]\<rparr>) None None
          | _ \<Rightarrow> Inl PyTypeError)\<rparr>" and
        margs = "[]" and mkwargs = "[(''b'', BitE (Bit 0)), (''q'', QubitE (Qubit 1))]" and
        measurement = "\<lparr>m_generator = Some ''measure'', m_arguments = Some [QubitE (Qubit 1), BitE (Bit 0)],
        m_qubit = Qubit 1, m_bit = Bit 0, m_axis = \<lparr>axis_value = [0, 0, 1]\<rparr>\<rparr>" and
        reset_generator = "\<lparr>gen_name = ''reset'', gen_params = [(''q'', None)],
        gen_body = (\<lambda>vs. case vs of
            [QubitE q] \<Rightarrow> Inr \<lparr>r_generator = None, r_arguments = None, r_qubit = q\<rparr>
          | _ \<Rightarrow> Inl PyTypeError)\<rparr>" and
        rargs = "[]" and rkwargs = "[(''q'', QubitE (Qubit 2))]" and
        reset = "\<lparr>r_generator = Some ''reset'', r_arguments = Some [QubitE (Qubit 2)], r_qubit = Qubit 2\<rparr>"]
      g m r
    by auto
qed

end
